theory Spec2Isabelle
  imports Complex_Main
begin

section \<open>Numbers\<close>

text \<open>
  A JavaScript number is modelled as an exact real or one of the special values
  Infinity, -Infinity and NaN. The arithmetic below is the IEEE 754 arithmetic of
  JavaScript on these values with two idealisations: finite results are exact (no
  rounding, no overflow to Infinity), and there is one zero. Every divisor in
  \<^verbatim>\<open>Boid.ts\<close> is a vector length, a distance or a positive count, none of
  which is ever the negative zero, so the sign of zero decides nothing there.
  A bound proved here for finite numbers is a bound of the exact computation: the
  code's result differs from it by the rounding of each operation. What is proved of
  NaN and of the zero vector uses only finite operations that are exact in the
  arithmetic of the code as well, such as the difference of equal numbers.
\<close>

datatype jsnum = Fin real | PInf | NInf | NaN

fun is_fin :: "jsnum \<Rightarrow> bool" where
  "is_fin (Fin a) = True"
| "is_fin PInf = False"
| "is_fin NInf = False"
| "is_fin NaN = False"

fun jneg :: "jsnum \<Rightarrow> jsnum" where
  "jneg (Fin a) = Fin (- a)"
| "jneg PInf = NInf"
| "jneg NInf = PInf"
| "jneg NaN = NaN"

fun jadd :: "jsnum \<Rightarrow> jsnum \<Rightarrow> jsnum" where
  "jadd (Fin a) (Fin b) = Fin (a + b)"
| "jadd NaN b = NaN"
| "jadd a NaN = NaN"
| "jadd PInf NInf = NaN"
| "jadd NInf PInf = NaN"
| "jadd PInf b = PInf"
| "jadd a PInf = PInf"
| "jadd NInf b = NInf"
| "jadd a NInf = NInf"

definition jsub :: "jsnum \<Rightarrow> jsnum \<Rightarrow> jsnum" where
  "jsub a b = jadd a (jneg b)"

fun jmul :: "jsnum \<Rightarrow> jsnum \<Rightarrow> jsnum" where
  "jmul (Fin a) (Fin b) = Fin (a * b)"
| "jmul NaN b = NaN"
| "jmul a NaN = NaN"
| "jmul (Fin a) PInf = (if a = 0 then NaN else if 0 < a then PInf else NInf)"
| "jmul (Fin a) NInf = (if a = 0 then NaN else if 0 < a then NInf else PInf)"
| "jmul PInf (Fin b) = (if b = 0 then NaN else if 0 < b then PInf else NInf)"
| "jmul NInf (Fin b) = (if b = 0 then NaN else if 0 < b then NInf else PInf)"
| "jmul PInf PInf = PInf"
| "jmul PInf NInf = NInf"
| "jmul NInf PInf = NInf"
| "jmul NInf NInf = PInf"

fun jdiv :: "jsnum \<Rightarrow> jsnum \<Rightarrow> jsnum" where
  "jdiv (Fin a) (Fin b) =
     (if b = 0 then (if a = 0 then NaN else if 0 < a then PInf else NInf)
      else Fin (a / b))"
| "jdiv NaN b = NaN"
| "jdiv a NaN = NaN"
| "jdiv (Fin a) PInf = Fin 0"
| "jdiv (Fin a) NInf = Fin 0"
| "jdiv PInf (Fin b) = (if 0 \<le> b then PInf else NInf)"
| "jdiv NInf (Fin b) = (if 0 \<le> b then NInf else PInf)"
| "jdiv PInf PInf = NaN"
| "jdiv PInf NInf = NaN"
| "jdiv NInf PInf = NaN"
| "jdiv NInf NInf = NaN"

text \<open>\<^verbatim>\<open>Math.sqrt\<close> and \<^verbatim>\<open>Math.abs\<close>.\<close>

fun jsqrt :: "jsnum \<Rightarrow> jsnum" where
  "jsqrt (Fin a) = (if a < 0 then NaN else Fin (sqrt a))"
| "jsqrt PInf = PInf"
| "jsqrt NInf = NaN"
| "jsqrt NaN = NaN"

fun jabs :: "jsnum \<Rightarrow> jsnum" where
  "jabs (Fin a) = Fin \<bar>a\<bar>"
| "jabs PInf = PInf"
| "jabs NInf = PInf"
| "jabs NaN = NaN"

text \<open>The comparisons \<^verbatim>\<open><\<close>, \<^verbatim>\<open>>\<close>, \<^verbatim>\<open><=\<close> and \<^verbatim>\<open>===\<close>: false whenever an operand is NaN.\<close>

fun jlt :: "jsnum \<Rightarrow> jsnum \<Rightarrow> bool" where
  "jlt (Fin a) (Fin b) = (a < b)"
| "jlt NaN b = False"
| "jlt a NaN = False"
| "jlt PInf b = False"
| "jlt a NInf = False"
| "jlt a PInf = True"
| "jlt NInf b = True"

definition jgt :: "jsnum \<Rightarrow> jsnum \<Rightarrow> bool" where
  "jgt a b = jlt b a"

definition jeq :: "jsnum \<Rightarrow> jsnum \<Rightarrow> bool" where
  "jeq a b = (a \<noteq> NaN \<and> a = b)"

definition jle :: "jsnum \<Rightarrow> jsnum \<Rightarrow> bool" where
  "jle a b = (jlt a b \<or> jeq a b)"

text \<open>\<^verbatim>\<open>Math.min\<close> and \<^verbatim>\<open>Math.max\<close> return NaN when an argument is NaN.\<close>

definition jmin :: "jsnum \<Rightarrow> jsnum \<Rightarrow> jsnum" where
  "jmin a b = (if a = NaN \<or> b = NaN then NaN else if jlt a b then a else b)"

definition jmax :: "jsnum \<Rightarrow> jsnum \<Rightarrow> jsnum" where
  "jmax a b = (if a = NaN \<or> b = NaN then NaN else if jlt a b then b else a)"

text \<open>\<^verbatim>\<open>a || b\<close> on numbers: \<^verbatim>\<open>b\<close> when \<^verbatim>\<open>a\<close> is falsy, that is zero or NaN.\<close>

definition jor :: "jsnum \<Rightarrow> jsnum \<Rightarrow> jsnum" where
  "jor a b = (if a = Fin 0 \<or> a = NaN then b else a)"

section \<open>Vectors and quaternions of three.js\<close>

text \<open>
  \<^verbatim>\<open>THREE.Vector3\<close> and \<^verbatim>\<open>THREE.Quaternion\<close> are the library's classes; the methods
  \<^verbatim>\<open>Boid.ts\<close> calls are embedded here from the library's definitions, under the
  library's names. Each returns the new value of the receiver.
\<close>

record Vector3 =
  vx :: jsnum
  vy :: jsnum
  vz :: jsnum

record Quaternion =
  qx :: jsnum
  qy :: jsnum
  qz :: jsnum
  qw :: jsnum

definition vec :: "jsnum \<Rightarrow> jsnum \<Rightarrow> jsnum \<Rightarrow> Vector3" where
  "vec a b c = \<lparr>vx = a, vy = b, vz = c\<rparr>"

text \<open>\<^verbatim>\<open>new THREE.Vector3()\<close> is the zero vector.\<close>

definition zero3 :: Vector3 where
  "zero3 = vec (Fin 0) (Fin 0) (Fin 0)"

text \<open>The vector whose three coordinates are NaN.\<close>

definition nan3 :: Vector3 where
  "nan3 = vec NaN NaN NaN"

definition add :: "Vector3 \<Rightarrow> Vector3 \<Rightarrow> Vector3" where
  "add u v = vec (jadd (vx u) (vx v)) (jadd (vy u) (vy v)) (jadd (vz u) (vz v))"

definition sub :: "Vector3 \<Rightarrow> Vector3 \<Rightarrow> Vector3" where
  "sub u v = vec (jsub (vx u) (vx v)) (jsub (vy u) (vy v)) (jsub (vz u) (vz v))"

text \<open>\<^verbatim>\<open>subVectors(a, b)\<close> overwrites the receiver with \<^verbatim>\<open>a - b\<close>.\<close>

definition subVectors :: "Vector3 \<Rightarrow> Vector3 \<Rightarrow> Vector3" where
  "subVectors a b = vec (jsub (vx a) (vx b)) (jsub (vy a) (vy b)) (jsub (vz a) (vz b))"

definition multiplyScalar :: "Vector3 \<Rightarrow> jsnum \<Rightarrow> Vector3" where
  "multiplyScalar v s = vec (jmul (vx v) s) (jmul (vy v) s) (jmul (vz v) s)"

text \<open>\<^verbatim>\<open>divideScalar(s)\<close> is \<^verbatim>\<open>multiplyScalar(1 / s)\<close>.\<close>

definition divideScalar :: "Vector3 \<Rightarrow> jsnum \<Rightarrow> Vector3" where
  "divideScalar v s = multiplyScalar v (jdiv (Fin 1) s)"

definition dot :: "Vector3 \<Rightarrow> Vector3 \<Rightarrow> jsnum" where
  "dot u v = jadd (jadd (jmul (vx u) (vx v)) (jmul (vy u) (vy v))) (jmul (vz u) (vz v))"

definition vlength :: "Vector3 \<Rightarrow> jsnum" where
  "vlength v =
     jsqrt (jadd (jadd (jmul (vx v) (vx v)) (jmul (vy v) (vy v))) (jmul (vz v) (vz v)))"

definition distanceToSquared :: "Vector3 \<Rightarrow> Vector3 \<Rightarrow> jsnum" where
  "distanceToSquared u v =
     (let dx = jsub (vx u) (vx v); dy = jsub (vy u) (vy v); dz = jsub (vz u) (vz v)
      in jadd (jadd (jmul dx dx) (jmul dy dy)) (jmul dz dz))"

definition distanceTo :: "Vector3 \<Rightarrow> Vector3 \<Rightarrow> jsnum" where
  "distanceTo u v = jsqrt (distanceToSquared u v)"

text \<open>\<^verbatim>\<open>normalize()\<close> is \<^verbatim>\<open>divideScalar(length() || 1)\<close>: the zero vector stays zero.\<close>

definition normalize :: "Vector3 \<Rightarrow> Vector3" where
  "normalize v = divideScalar v (jor (vlength v) (Fin 1))"

definition setLength :: "Vector3 \<Rightarrow> jsnum \<Rightarrow> Vector3" where
  "setLength v l = multiplyScalar (normalize v) l"

text \<open>
  \<^verbatim>\<open>clampLength(min, max)\<close> is
  \<^verbatim>\<open>divideScalar(length || 1).multiplyScalar(Math.max(min, Math.min(max, length)))\<close>.
\<close>

definition clampLength :: "jsnum \<Rightarrow> jsnum \<Rightarrow> Vector3 \<Rightarrow> Vector3" where
  "clampLength lo hi v =
     (let l = vlength v
      in multiplyScalar (divideScalar v (jor l (Fin 1))) (jmax lo (jmin hi l)))"

text \<open>\<^verbatim>\<open>MathUtils.lerp(x, y, t)\<close> is \<^verbatim>\<open>(1 - t) * x + t * y\<close>.\<close>

definition lerp :: "jsnum \<Rightarrow> jsnum \<Rightarrow> jsnum \<Rightarrow> jsnum" where
  "lerp a b t = jadd (jmul (jsub (Fin 1) t) a) (jmul t b)"

text \<open>\<^verbatim>\<open>Number.EPSILON\<close>, the threshold of \<^verbatim>\<open>setFromUnitVectors\<close>.\<close>

definition EPSILON :: real where
  "EPSILON = 1 / 2 ^ 52"

definition qlength :: "Quaternion \<Rightarrow> jsnum" where
  "qlength q =
     jsqrt (jadd (jadd (jadd (jmul (qx q) (qx q)) (jmul (qy q) (qy q)))
                       (jmul (qz q) (qz q))) (jmul (qw q) (qw q)))"

text \<open>
  \<^verbatim>\<open>Quaternion.normalize()\<close>: the identity rotation when the length is zero, else
  every component times \<^verbatim>\<open>1 / length\<close>.
\<close>

definition qnormalize :: "Quaternion \<Rightarrow> Quaternion" where
  "qnormalize q =
     (let l = qlength q
      in if jeq l (Fin 0) then \<lparr>qx = Fin 0, qy = Fin 0, qz = Fin 0, qw = Fin 1\<rparr>
         else (let l1 = jdiv (Fin 1) l
               in \<lparr>qx = jmul (qx q) l1, qy = jmul (qy q) l1,
                   qz = jmul (qz q) l1, qw = jmul (qw q) l1\<rparr>))"

text \<open>
  \<^verbatim>\<open>Quaternion.setFromUnitVectors(vFrom, vTo)\<close>: with \<^verbatim>\<open>r = vFrom.dot(vTo) + 1\<close>, the
  branch \<^verbatim>\<open>r < Number.EPSILON\<close> picks an axis orthogonal to \<^verbatim>\<open>vFrom\<close>, the other
  branch takes the cross product; the result is normalised.
\<close>

definition setFromUnitVectors :: "Vector3 \<Rightarrow> Vector3 \<Rightarrow> Quaternion" where
  "setFromUnitVectors vFrom vTo =
     (let r = jadd (dot vFrom vTo) (Fin 1)
      in qnormalize
           (if jlt r (Fin EPSILON) then
              (if jgt (jabs (vx vFrom)) (jabs (vz vFrom))
               then \<lparr>qx = jneg (vy vFrom), qy = vx vFrom, qz = Fin 0, qw = Fin 0\<rparr>
               else \<lparr>qx = Fin 0, qy = jneg (vz vFrom), qz = vy vFrom, qw = Fin 0\<rparr>)
            else
              \<lparr>qx = jsub (jmul (vy vFrom) (vz vTo)) (jmul (vz vFrom) (vy vTo)),
               qy = jsub (jmul (vz vFrom) (vx vTo)) (jmul (vx vFrom) (vz vTo)),
               qz = jsub (jmul (vx vFrom) (vy vTo)) (jmul (vy vFrom) (vx vTo)),
               qw = r\<rparr>))"

section \<open>The boid\<close>

text \<open>
  The fields of class \<^verbatim>\<open>Boid\<close>; of the mesh, the two properties the class writes.
  The static bounds \<^verbatim>\<open>BOUNDS_MIN\<close> and \<^verbatim>\<open>BOUNDS_MAX\<close> are mutable and set by the
  caller, so the methods that read them take them as arguments.
\<close>

record Boid =
  position :: Vector3
  velocity :: Vector3
  acceleration :: Vector3
  mesh_position :: Vector3
  mesh_quaternion :: Quaternion

definition MAX_SPEED :: real where
  "MAX_SPEED = 1 / 2"

definition MAX_FORCE :: real where
  "MAX_FORCE = 13 / 100"

definition NEIGHBOR_DIST :: real where
  "NEIGHBOR_DIST = 5"

definition DESIRED_SEPARATION :: real where
  "DESIRED_SEPARATION = 4"

definition applyForce :: "Vector3 \<Rightarrow> Boid \<Rightarrow> Boid" where
  "applyForce force b = b\<lparr>acceleration := add (acceleration b) force\<rparr>"

text \<open>
  The first four statements of \<^verbatim>\<open>update\<close> and \<^verbatim>\<open>updateWithWrap\<close>: integrate the
  velocity, clamp it, integrate the position, clear the acceleration.
\<close>

definition integrate :: "Boid \<Rightarrow> Boid" where
  "integrate b =
     (let v = clampLength (Fin 0) (Fin MAX_SPEED) (add (velocity b) (acceleration b))
      in b\<lparr>velocity := v, position := add (position b) v, acceleration := vec (Fin 0) (Fin 0) (Fin 0)\<rparr>)"

text \<open>
  One round of the loop over the axes, for a coordinate \<^verbatim>\<open>p\<close> of the position and
  the same coordinate \<^verbatim>\<open>v\<close> of the velocity. The second test reads the coordinate the
  first may have written.
\<close>

definition wrap_axis :: "jsnum \<Rightarrow> jsnum \<Rightarrow> jsnum \<Rightarrow> jsnum" where
  "wrap_axis lo hi p =
     (let p1 = (if jgt p hi then lo else p)
      in if jlt p1 lo then hi else p1)"

definition bounce_axis :: "jsnum \<Rightarrow> jsnum \<Rightarrow> jsnum \<times> jsnum \<Rightarrow> jsnum \<times> jsnum" where
  "bounce_axis lo hi pv =
     (let pv1 = (if jgt (fst pv) hi then (hi, jmul (snd pv) (Fin (- 1))) else pv)
      in if jlt (fst pv1) lo then (lo, jmul (snd pv1) (Fin (- 1))) else pv1)"

text \<open>
  The last three statements of both methods: copy the position to the mesh and set
  the mesh's rotation from the up vector and the normalised velocity.
\<close>

definition orient :: "Boid \<Rightarrow> Boid" where
  "orient b =
     b\<lparr>mesh_position := position b,
       mesh_quaternion :=
         setFromUnitVectors (vec (Fin 0) (Fin 1) (Fin 0)) (normalize (velocity b))\<rparr>"

definition updateWithWrap :: "Vector3 \<Rightarrow> Vector3 \<Rightarrow> Boid \<Rightarrow> Boid" where
  "updateWithWrap bmin bmax b =
     (let b1 = integrate b;
          p = position b1
      in orient (b1\<lparr>position :=
           vec (wrap_axis (vx bmin) (vx bmax) (vx p))
               (wrap_axis (vy bmin) (vy bmax) (vy p))
               (wrap_axis (vz bmin) (vz bmax) (vz p))\<rparr>))"

definition update :: "Vector3 \<Rightarrow> Vector3 \<Rightarrow> Boid \<Rightarrow> Boid" where
  "update bmin bmax b =
     (let b1 = integrate b;
          p = position b1;
          v = velocity b1;
          rx = bounce_axis (vx bmin) (vx bmax) (vx p, vx v);
          ry = bounce_axis (vy bmin) (vy bmax) (vy p, vy v);
          rz = bounce_axis (vz bmin) (vz bmax) (vz p, vz v)
      in orient (b1\<lparr>position := vec (fst rx) (fst ry) (fst rz),
                    velocity := vec (snd rx) (snd ry) (snd rz)\<rparr>))"

section \<open>Steering\<close>

text \<open>
  A flock is the array \<^verbatim>\<open>boids\<close>; a boid of it is named by its index, so that the
  test \<^verbatim>\<open>other !== this\<close> on object identity is the test on indices. The methods
  below are those of the boid at index \<^verbatim>\<open>i\<close>; each \<^verbatim>\<open>for (const other of boids)\<close>
  is a fold over the indices, in order, of the loop body.
\<close>

definition seek :: "Boid \<Rightarrow> Vector3 \<Rightarrow> Vector3" where
  "seek b target =
     (let desired = setLength (subVectors target (position b)) (Fin MAX_SPEED);
          steer = subVectors desired (velocity b)
      in clampLength (Fin 0) (Fin MAX_FORCE) steer)"

definition separation_body :: "Boid list \<Rightarrow> nat \<Rightarrow> nat \<Rightarrow> Vector3 \<times> nat \<Rightarrow> Vector3 \<times> nat" where
  "separation_body boids i j acc =
     (let d = distanceTo (position (boids ! i)) (position (boids ! j))
      in if j \<noteq> i \<and> jlt d (Fin DESIRED_SEPARATION)
         then (let diff = subVectors (position (boids ! i)) (position (boids ! j))
               in (add (fst acc) (divideScalar (normalize diff) d), snd acc + 1))
         else acc)"

definition separation :: "Boid list \<Rightarrow> nat \<Rightarrow> Vector3" where
  "separation boids i =
     (let acc = fold (separation_body boids i) [0..<length boids] (zero3, 0);
          count = snd acc;
          steer = (if 0 < count then divideScalar (fst acc) (Fin (real count)) else fst acc)
      in if jgt (vlength steer) (Fin 0)
         then clampLength (Fin 0) (Fin MAX_FORCE)
                (sub (setLength steer (Fin MAX_SPEED)) (velocity (boids ! i)))
         else steer)"

definition alignment_body :: "Boid list \<Rightarrow> nat \<Rightarrow> nat \<Rightarrow> Vector3 \<times> nat \<Rightarrow> Vector3 \<times> nat" where
  "alignment_body boids i j acc =
     (let d = distanceTo (position (boids ! i)) (position (boids ! j))
      in if j \<noteq> i \<and> jlt d (Fin NEIGHBOR_DIST)
         then (add (fst acc) (velocity (boids ! j)), snd acc + 1)
         else acc)"

definition alignment :: "Boid list \<Rightarrow> nat \<Rightarrow> Vector3" where
  "alignment boids i =
     (let acc = fold (alignment_body boids i) [0..<length boids] (zero3, 0);
          count = snd acc
      in if count = 0 then zero3
         else (let sum = setLength (divideScalar (fst acc) (Fin (real count))) (Fin MAX_SPEED);
                   steer = sub sum (velocity (boids ! i))
               in clampLength (Fin 0) (Fin MAX_FORCE) steer))"

definition cohesion_body :: "Boid list \<Rightarrow> nat \<Rightarrow> nat \<Rightarrow> Vector3 \<times> nat \<Rightarrow> Vector3 \<times> nat" where
  "cohesion_body boids i j acc =
     (let d = distanceTo (position (boids ! i)) (position (boids ! j))
      in if j \<noteq> i \<and> jlt d (Fin NEIGHBOR_DIST)
         then (add (fst acc) (position (boids ! j)), snd acc + 1)
         else acc)"

definition cohesion :: "Boid list \<Rightarrow> nat \<Rightarrow> Vector3" where
  "cohesion boids i =
     (let acc = fold (cohesion_body boids i) [0..<length boids] (zero3, 0);
          count = snd acc
      in if count = 0 then zero3
         else seek (boids ! i) (divideScalar (fst acc) (Fin (real count))))"

text \<open>\<^verbatim>\<open>flock\<close> returns the boid at index \<^verbatim>\<open>i\<close> as the three calls of \<^verbatim>\<open>applyForce\<close> leave it.\<close>

definition flock :: "Boid list \<Rightarrow> nat \<Rightarrow> Boid" where
  "flock boids i =
     (let separation = multiplyScalar (separation boids i) (Fin (3 / 2));
          alignment = multiplyScalar (alignment boids i) (Fin 1);
          cohesion = multiplyScalar (cohesion boids i) (Fin 1)
      in applyForce cohesion (applyForce alignment (applyForce separation (boids ! i))))"

section \<open>The frame loop\<close>

text \<open>
  The body of the loop of \<^verbatim>\<open>animate\<close> in \<^verbatim>\<open>index.ts\<close>, for the boid at index \<^verbatim>\<open>i\<close>:
  \<^verbatim>\<open>boid.flock(boids)\<close>, then \<^verbatim>\<open>boid.update()\<close>, both writing the boid in place in the
  array every later round reads. \<^verbatim>\<open>animate\<close> is one frame while \<^verbatim>\<open>animating\<close> holds.
  The later versions of the file add, between the two calls and when a pointer
  target is set, \<^verbatim>\<open>seek\<close>, \<^verbatim>\<open>avoidObstacles\<close> and \<^verbatim>\<open>applyForce\<close> on the same boid;
  the loop is the same.
\<close>

definition animate_body :: "Vector3 \<Rightarrow> Vector3 \<Rightarrow> nat \<Rightarrow> Boid list \<Rightarrow> Boid list" where
  "animate_body bmin bmax i boids =
     (let boids1 = boids[i := flock boids i]
      in boids1[i := update bmin bmax (boids1 ! i)])"

definition animate :: "Vector3 \<Rightarrow> Vector3 \<Rightarrow> Boid list \<Rightarrow> Boid list" where
  "animate bmin bmax boids = fold (animate_body bmin bmax) [0..<length boids] boids"

section \<open>Vectors as objects\<close>

text \<open>
  The methods of \<^verbatim>\<open>Vector3\<close> overwrite their receiver, and a boid holds its three
  vectors by reference. To say what a method writes, the vectors are kept in a store:
  an address names a vector object, \<open>cells\<close> gives its present value and \<open>lim\<close> is
  the next free address, so that the addresses below \<open>lim\<close> are the vectors that
  exist. \<^verbatim>\<open>new THREE.Vector3(...)\<close> takes the next free address; a call of a
  method on a vector overwrites the cell of the receiver with the method's result.
\<close>

type_synonym addr = nat

record heap =
  cells :: "addr \<Rightarrow> Vector3"
  lim :: addr

definition alloc :: "Vector3 \<Rightarrow> heap \<Rightarrow> addr \<times> heap" where
  "alloc v h = (lim h, h\<lparr>cells := (cells h)(lim h := v), lim := Suc (lim h)\<rparr>)"

definition mutate :: "addr \<Rightarrow> (Vector3 \<Rightarrow> Vector3) \<Rightarrow> heap \<Rightarrow> heap" where
  "mutate a f h = h\<lparr>cells := (cells h)(a := f (cells h a))\<rparr>"

text \<open>
  A boid object holds the addresses of its three vectors; \<open>boid_of\<close> reads its
  present state from the store.
\<close>

record BoidObj =
  position_ref :: addr
  velocity_ref :: addr
  acceleration_ref :: addr
  mesh_position_val :: Vector3
  mesh_quaternion_val :: Quaternion

definition boid_of :: "heap \<Rightarrow> BoidObj \<Rightarrow> Boid" where
  "boid_of h b =
     \<lparr>position = cells h (position_ref b),
      velocity = cells h (velocity_ref b),
      acceleration = cells h (acceleration_ref b),
      mesh_position = mesh_position_val b,
      mesh_quaternion = mesh_quaternion_val b\<rparr>"

text \<open>
  The four queries and \<^verbatim>\<open>flock\<close> of \<^verbatim>\<open>Boid.ts\<close> once more, statement by statement,
  on the store: each returns the address of the vector it returns and the store it
  leaves. The loops carry the count and the store; the accumulated vector is the cell
  of \<^verbatim>\<open>steer\<close> or \<^verbatim>\<open>sum\<close>.
\<close>

definition h_seek :: "BoidObj \<Rightarrow> addr \<Rightarrow> heap \<Rightarrow> addr \<times> heap" where
  "h_seek this target h =
     (case alloc zero3 h of (desired, h1) \<Rightarrow>
      let h2 = mutate desired
                 (\<lambda>_. subVectors (cells h1 target) (cells h1 (position_ref this))) h1;
          h3 = mutate desired (\<lambda>v. setLength v (Fin MAX_SPEED)) h2
      in (case alloc zero3 h3 of (steer, h4) \<Rightarrow>
          let h5 = mutate steer
                     (\<lambda>_. subVectors (cells h4 desired) (cells h4 (velocity_ref this))) h4;
              h6 = mutate steer (clampLength (Fin 0) (Fin MAX_FORCE)) h5
          in (steer, h6)))"

definition h_separation_body ::
  "BoidObj list \<Rightarrow> nat \<Rightarrow> addr \<Rightarrow> nat \<Rightarrow> nat \<times> heap \<Rightarrow> nat \<times> heap" where
  "h_separation_body boids i steer j st =
     (let h = snd st;
          d = distanceTo (cells h (position_ref (boids ! i))) (cells h (position_ref (boids ! j)))
      in if j \<noteq> i \<and> jlt d (Fin DESIRED_SEPARATION)
         then (case alloc zero3 h of (diff, h1) \<Rightarrow>
               let h2 = mutate diff
                          (\<lambda>_. subVectors (cells h1 (position_ref (boids ! i)))
                                           (cells h1 (position_ref (boids ! j)))) h1;
                   h3 = mutate diff normalize h2;
                   h4 = mutate diff (\<lambda>v. divideScalar v d) h3;
                   h5 = mutate steer (\<lambda>v. add v (cells h4 diff)) h4
               in (fst st + 1, h5))
         else st)"

definition h_separation :: "BoidObj list \<Rightarrow> nat \<Rightarrow> heap \<Rightarrow> addr \<times> heap" where
  "h_separation boids i h =
     (case alloc zero3 h of (steer, h1) \<Rightarrow>
      let st = fold (h_separation_body boids i steer) [0..<length boids] (0, h1);
          count = fst st;
          h3 = (if 0 < count then mutate steer (\<lambda>v. divideScalar v (Fin (real count))) (snd st)
                else snd st)
      in if jgt (vlength (cells h3 steer)) (Fin 0)
         then (let h4 = mutate steer (\<lambda>v. setLength v (Fin MAX_SPEED)) h3;
                   h5 = mutate steer (\<lambda>v. sub v (cells h4 (velocity_ref (boids ! i)))) h4;
                   h6 = mutate steer (clampLength (Fin 0) (Fin MAX_FORCE)) h5
               in (steer, h6))
         else (steer, h3))"

definition h_alignment_body ::
  "BoidObj list \<Rightarrow> nat \<Rightarrow> addr \<Rightarrow> nat \<Rightarrow> nat \<times> heap \<Rightarrow> nat \<times> heap" where
  "h_alignment_body boids i sumv j st =
     (let h = snd st;
          d = distanceTo (cells h (position_ref (boids ! i))) (cells h (position_ref (boids ! j)))
      in if j \<noteq> i \<and> jlt d (Fin NEIGHBOR_DIST)
         then (fst st + 1, mutate sumv (\<lambda>v. add v (cells h (velocity_ref (boids ! j)))) h)
         else st)"

definition h_alignment :: "BoidObj list \<Rightarrow> nat \<Rightarrow> heap \<Rightarrow> addr \<times> heap" where
  "h_alignment boids i h =
     (case alloc zero3 h of (sumv, h1) \<Rightarrow>
      let st = fold (h_alignment_body boids i sumv) [0..<length boids] (0, h1);
          count = fst st
      in if count = 0 then alloc zero3 (snd st)
         else (let h3 = mutate sumv (\<lambda>v. divideScalar v (Fin (real count))) (snd st);
                   h4 = mutate sumv (\<lambda>v. setLength v (Fin MAX_SPEED)) h3;
                   h5 = mutate sumv (\<lambda>v. sub v (cells h4 (velocity_ref (boids ! i)))) h4;
                   h6 = mutate sumv (clampLength (Fin 0) (Fin MAX_FORCE)) h5
               in (sumv, h6)))"

definition h_cohesion_body ::
  "BoidObj list \<Rightarrow> nat \<Rightarrow> addr \<Rightarrow> nat \<Rightarrow> nat \<times> heap \<Rightarrow> nat \<times> heap" where
  "h_cohesion_body boids i sumv j st =
     (let h = snd st;
          d = distanceTo (cells h (position_ref (boids ! i))) (cells h (position_ref (boids ! j)))
      in if j \<noteq> i \<and> jlt d (Fin NEIGHBOR_DIST)
         then (fst st + 1, mutate sumv (\<lambda>v. add v (cells h (position_ref (boids ! j)))) h)
         else st)"

definition h_cohesion :: "BoidObj list \<Rightarrow> nat \<Rightarrow> heap \<Rightarrow> addr \<times> heap" where
  "h_cohesion boids i h =
     (case alloc zero3 h of (sumv, h1) \<Rightarrow>
      let st = fold (h_cohesion_body boids i sumv) [0..<length boids] (0, h1);
          count = fst st
      in if count = 0 then alloc zero3 (snd st)
         else (let h3 = mutate sumv (\<lambda>v. divideScalar v (Fin (real count))) (snd st)
               in h_seek (boids ! i) sumv h3))"

definition h_applyForce :: "BoidObj \<Rightarrow> addr \<Rightarrow> heap \<Rightarrow> heap" where
  "h_applyForce this force h =
     mutate (acceleration_ref this) (\<lambda>v. add v (cells h force)) h"

definition h_flock :: "BoidObj list \<Rightarrow> nat \<Rightarrow> heap \<Rightarrow> heap" where
  "h_flock boids i h =
     (case h_separation boids i h of (sep, h1) \<Rightarrow>
      let h2 = mutate sep (\<lambda>v. multiplyScalar v (Fin (3 / 2))) h1
      in (case h_alignment boids i h2 of (ali, h3) \<Rightarrow>
          let h4 = mutate ali (\<lambda>v. multiplyScalar v (Fin 1)) h3
          in (case h_cohesion boids i h4 of (coh, h5) \<Rightarrow>
              let h6 = mutate coh (\<lambda>v. multiplyScalar v (Fin 1)) h5
              in h_applyForce (boids ! i) coh
                   (h_applyForce (boids ! i) ali
                      (h_applyForce (boids ! i) sep h6)))))"

text \<open>
  A call keeps the frame when every vector that existed before it has the value it
  had; the vectors of a flock are allocated when their addresses are below \<open>lim\<close>.
\<close>

definition frame :: "heap \<Rightarrow> heap \<Rightarrow> bool" where
  "frame h h' = (lim h \<le> lim h' \<and> (\<forall>a. a < lim h \<longrightarrow> cells h' a = cells h a))"

definition allocated :: "heap \<Rightarrow> BoidObj list \<Rightarrow> bool" where
  "allocated h boids =
     (\<forall>b \<in> set boids. position_ref b < lim h \<and> velocity_ref b < lim h \<and>
                        acceleration_ref b < lim h)"

text \<open>
  The store \<open>h\<close> extends \<open>h0\<close> with the vector at \<open>r\<close> when \<open>r\<close> is a vector
  made since \<open>h0\<close> and the vectors of \<open>h0\<close> have their values of then.
\<close>

definition extends_from :: "heap \<Rightarrow> addr \<Rightarrow> heap \<Rightarrow> bool" where
  "extends_from h0 r h =
     (lim h0 \<le> r \<and> r < lim h \<and> (\<forall>a. a < lim h0 \<longrightarrow> cells h a = cells h0 a))"

text \<open>
  The acceleration of the boid at index \<open>i\<close> is a vector of its own: it is no
  position or velocity of the flock and no other boid's acceleration, as for boids
  made by the constructor, which makes three new vectors for each.
\<close>

definition separate_acceleration :: "BoidObj list \<Rightarrow> nat \<Rightarrow> bool" where
  "separate_acceleration boids i =
     (\<forall>j. j < length boids \<longrightarrow>
        acceleration_ref (boids ! i) \<noteq> position_ref (boids ! j) \<and>
        acceleration_ref (boids ! i) \<noteq> velocity_ref (boids ! j) \<and>
        (j \<noteq> i \<longrightarrow> acceleration_ref (boids ! i) \<noteq> acceleration_ref (boids ! j)))"

section \<open>Obstacle avoidance\<close>

text \<open>
  Modelled from the spec: \<^verbatim>\<open>avoidObstacles\<close> is called by \<^verbatim>\<open>animate\<close> in
  \<^verbatim>\<open>index.ts\<close>, and \<^verbatim>\<open>Boid.ts\<close> does not define it. The specification: for each
  obstacle centre within a fixed avoidance radius, a repulsive force away from the
  obstacle is applied directly into the acceleration; radius and strength are
  tunable constants. Here both are arguments, and the force for a centre is the unit
  vector from the centre to the boid times the strength.
\<close>

definition repulsion :: "real \<Rightarrow> Vector3 \<Rightarrow> Vector3 \<Rightarrow> Vector3" where
  "repulsion strength p center =
     multiplyScalar (normalize (subVectors p center)) (Fin strength)"

definition avoid_body :: "real \<Rightarrow> real \<Rightarrow> Vector3 \<Rightarrow> Boid \<Rightarrow> Boid" where
  "avoid_body radius strength center b =
     (if jlt (distanceTo (position b) center) (Fin radius)
      then applyForce (repulsion strength (position b) center) b
      else b)"


section \<open>The description of separation\<close>

text \<open>
  The description of \<^verbatim>\<open>separation\<close> as a sum over the qualifying neighbours, with
  the term accumulated for a neighbour as a parameter: the indices of the other boids
  at a distance below \<^verbatim>\<open>DESIRED_SEPARATION\<close>; their terms, added up from the zero
  vector; the zero vector when there is none; else the average, which when its length
  is positive is set to length \<^verbatim>\<open>MAX_SPEED\<close>, less the velocity, clamped to
  \<^verbatim>\<open>MAX_FORCE\<close>.
\<close>

definition separation_neighbors :: "Boid list \<Rightarrow> nat \<Rightarrow> nat list" where
  "separation_neighbors boids i =
     filter (\<lambda>j. j \<noteq> i \<and>
                jlt (distanceTo (position (boids ! i)) (position (boids ! j)))
                    (Fin DESIRED_SEPARATION))
       [0..<length boids]"

definition separation_described ::
  "(Vector3 \<Rightarrow> Vector3 \<Rightarrow> Vector3) \<Rightarrow> Boid list \<Rightarrow> nat \<Rightarrow> Vector3" where
  "separation_described rep boids i =
     (let ns = separation_neighbors boids i;
          total = foldl add zero3 (map (\<lambda>j. rep (position (boids ! i)) (position (boids ! j))) ns)
      in if ns = [] then zero3
         else (let avg = divideScalar total (Fin (real (length ns)))
               in if jgt (vlength avg) (Fin 0)
                  then clampLength (Fin 0) (Fin MAX_FORCE)
                         (sub (setLength avg (Fin MAX_SPEED)) (velocity (boids ! i)))
                  else avg))"

text \<open>
  The term as the specification writes it, the difference of the positions over the
  distance, and the term of the code, the normalised difference over the distance.
\<close>

definition repulsion_claimed :: "Vector3 \<Rightarrow> Vector3 \<Rightarrow> Vector3" where
  "repulsion_claimed p q = divideScalar (subVectors p q) (distanceTo p q)"

definition repulsion_unit :: "Vector3 \<Rightarrow> Vector3 \<Rightarrow> Vector3" where
  "repulsion_unit p q = divideScalar (normalize (subVectors p q)) (distanceTo p q)"

section \<open>Finite vectors\<close>

definition finite3 :: "Vector3 \<Rightarrow> bool" where
  "finite3 v = (is_fin (vx v) \<and> is_fin (vy v) \<and> is_fin (vz v))"

definition norm3 :: "real \<Rightarrow> real \<Rightarrow> real \<Rightarrow> real" where
  "norm3 a b c = sqrt (a * a + b * b + c * c)"

text \<open>
  A position is within the bounds when every coordinate is between the bounds'
  coordinates, ends included, by the comparison of JavaScript; the bounds are well
  formed when the minimum is at most the maximum on every axis.
\<close>

definition within_bounds :: "Vector3 \<Rightarrow> Vector3 \<Rightarrow> Vector3 \<Rightarrow> bool" where
  "within_bounds bmin bmax p =
     (jle (vx bmin) (vx p) \<and> jle (vx p) (vx bmax) \<and>
      jle (vy bmin) (vy p) \<and> jle (vy p) (vy bmax) \<and>
      jle (vz bmin) (vz p) \<and> jle (vz p) (vz bmax))"

definition well_formed_bounds :: "Vector3 \<Rightarrow> Vector3 \<Rightarrow> bool" where
  "well_formed_bounds bmin bmax =
     (jle (vx bmin) (vx bmax) \<and> jle (vy bmin) (vy bmax) \<and> jle (vz bmin) (vz bmax))"

section \<open>The constructor\<close>

text \<open>
  \<^verbatim>\<open>new Boid()\<close>, with the six results of \<^verbatim>\<open>Math.random()\<close> in the order of the
  calls as arguments: three for the position, three for the velocity. A new mesh is
  at the origin with the identity rotation.
\<close>

definition new_Boid ::
  "Vector3 \<Rightarrow> Vector3 \<Rightarrow> real \<Rightarrow> real \<Rightarrow> real \<Rightarrow> real \<Rightarrow> real \<Rightarrow> real \<Rightarrow> Boid" where
  "new_Boid bmin bmax r1 r2 r3 r4 r5 r6 =
     \<lparr>position = vec (lerp (vx bmin) (vx bmax) (Fin r1))
                     (lerp (vy bmin) (vy bmax) (Fin r2))
                     (lerp (vz bmin) (vz bmax) (Fin r3)),
      velocity = multiplyScalar
                   (normalize (vec (jsub (Fin r4) (Fin (1 / 2)))
                                   (jsub (Fin r5) (Fin (1 / 2)))
                                   (jsub (Fin r6) (Fin (1 / 2)))))
                   (Fin MAX_SPEED),
      acceleration = zero3,
      mesh_position = zero3,
      mesh_quaternion = \<lparr>qx = Fin 0, qy = Fin 0, qz = Fin 0, qw = Fin 1\<rparr>\<rparr>"

text \<open>\<^verbatim>\<open>Math.random()\<close> returns a number that is at least 0 and less than 1.\<close>

definition is_random :: "real \<Rightarrow> bool" where
  "is_random r = (0 \<le> r \<and> r < 1)"

section \<open>Concrete inputs\<close>

text \<open>The default bounds of \<^verbatim>\<open>Boid.ts\<close>, and a boid about to leave them on the x axis.\<close>

definition default_min :: Vector3 where
  "default_min = vec (Fin (- 25)) (Fin (- 25)) (Fin (- 25))"

definition default_max :: Vector3 where
  "default_max = vec (Fin 25) (Fin 25) (Fin 25)"

definition identity_quaternion :: Quaternion where
  "identity_quaternion = \<lparr>qx = Fin 0, qy = Fin 0, qz = Fin 0, qw = Fin 1\<rparr>"


text \<open>
  A boid at rest at the origin with one neighbour at distance 2 on the x axis and one
  at distance 3/2 on the y axis; and two boids at the same position.
\<close>

definition skew_flock :: "Boid list" where
  "skew_flock =
     [\<lparr>position = vec (Fin 0) (Fin 0) (Fin 0),
       velocity = vec (Fin 0) (Fin 0) (Fin 0),
       acceleration = vec (Fin 0) (Fin 0) (Fin 0),
       mesh_position = vec (Fin 0) (Fin 0) (Fin 0),
       mesh_quaternion = identity_quaternion\<rparr>,
      \<lparr>position = vec (Fin 2) (Fin 0) (Fin 0),
       velocity = vec (Fin 0) (Fin 0) (Fin 0),
       acceleration = vec (Fin 0) (Fin 0) (Fin 0),
       mesh_position = vec (Fin 2) (Fin 0) (Fin 0),
       mesh_quaternion = identity_quaternion\<rparr>,
      \<lparr>position = vec (Fin 0) (Fin (3 / 2)) (Fin 0),
       velocity = vec (Fin 0) (Fin 0) (Fin 0),
       acceleration = vec (Fin 0) (Fin 0) (Fin 0),
       mesh_position = vec (Fin 0) (Fin (3 / 2)) (Fin 0),
       mesh_quaternion = identity_quaternion\<rparr>]"

definition coincident_flock :: "Boid list" where
  "coincident_flock =
     [\<lparr>position = vec (Fin 1) (Fin 2) (Fin 3),
       velocity = vec (Fin (1 / 2)) (Fin 0) (Fin 0),
       acceleration = vec (Fin 0) (Fin 0) (Fin 0),
       mesh_position = vec (Fin 1) (Fin 2) (Fin 3),
       mesh_quaternion = identity_quaternion\<rparr>,
      \<lparr>position = vec (Fin 1) (Fin 2) (Fin 3),
       velocity = vec (Fin 0) (Fin (1 / 2)) (Fin 0),
       acceleration = vec (Fin 0) (Fin 0) (Fin 0),
       mesh_position = vec (Fin 1) (Fin 2) (Fin 3),
       mesh_quaternion = identity_quaternion\<rparr>]"

text \<open>
  A boid at rest with no force on it, whose mesh still has the rotation that
  \<^verbatim>\<open>setFromUnitVectors\<close> gives a boid heading straight down.
\<close>

definition still_boid :: Boid where
  "still_boid =
     \<lparr>position = vec (Fin 1) (Fin 2) (Fin 3),
      velocity = vec (Fin 0) (Fin 0) (Fin 0),
      acceleration = vec (Fin 0) (Fin 0) (Fin 0),
      mesh_position = vec (Fin 1) (Fin 2) (Fin 3),
      mesh_quaternion = \<lparr>qx = Fin 0, qy = Fin 0, qz = Fin 1, qw = Fin 0\<rparr>\<rparr>"

text \<open>
  Two boids heading the same way on the x axis, 5.25 apart: out of each other's
  neighbourhood at the start of the frame, within it once the first has moved.
\<close>

definition approach_flock :: "Boid list" where
  "approach_flock =
     [\<lparr>position = vec (Fin 0) (Fin 0) (Fin 0),
       velocity = vec (Fin (1 / 2)) (Fin 0) (Fin 0),
       acceleration = vec (Fin 0) (Fin 0) (Fin 0),
       mesh_position = vec (Fin 0) (Fin 0) (Fin 0),
       mesh_quaternion = identity_quaternion\<rparr>,
      \<lparr>position = vec (Fin (21 / 4)) (Fin 0) (Fin 0),
       velocity = vec (Fin (1 / 2)) (Fin 0) (Fin 0),
       acceleration = vec (Fin 0) (Fin 0) (Fin 0),
       mesh_position = vec (Fin (21 / 4)) (Fin 0) (Fin 0),
       mesh_quaternion = identity_quaternion\<rparr>]"

text \<open>
  A store with the six vectors of two boids, the second at distance 2 from the first.
\<close>

definition two_boid_heap :: heap where
  "two_boid_heap =
     \<lparr>cells = (\<lambda>a. if a = 3 then vec (Fin 2) (Fin 0) (Fin 0)
                   else if a = 1 \<or> a = 4 then vec (Fin (1 / 2)) (Fin 0) (Fin 0)
                   else zero3),
      lim = 6\<rparr>"

definition two_boid_objs :: "BoidObj list" where
  "two_boid_objs =
     [\<lparr>position_ref = 0, velocity_ref = 1, acceleration_ref = 2,
       mesh_position_val = zero3, mesh_quaternion_val = identity_quaternion\<rparr>,
      \<lparr>position_ref = 3, velocity_ref = 4, acceleration_ref = 5,
       mesh_position_val = zero3, mesh_quaternion_val = identity_quaternion\<rparr>]"

section \<open>Arithmetic of finite vectors\<close>

lemma vec_sel [simp]: "vx (vec a b c) = a" "vy (vec a b c) = b" "vz (vec a b c) = c"
  by (simp_all add: vec_def)

lemma vec_eq_iff [simp]: "vec a b c = vec a' b' c' \<longleftrightarrow> a = a' \<and> b = b' \<and> c = c'"
  by (simp add: vec_def)

lemma jle_fin [simp]: "jle (Fin a) (Fin b) \<longleftrightarrow> a \<le> b"
  by (auto simp: jle_def jeq_def)

lemma finite3_vec: "finite3 v \<Longrightarrow> \<exists>a b c. v = vec (Fin a) (Fin b) (Fin c)"
  apply (cases v)
  subgoal for p q r
    by (cases p; cases q; cases r) (auto simp: finite3_def vec_def)
  done

lemma finite3_fin [simp]: "finite3 (vec (Fin a) (Fin b) (Fin c))"
  by (simp add: finite3_def)

lemma vlength_fin: "vlength (vec (Fin a) (Fin b) (Fin c)) = Fin (norm3 a b c)"
proof -
  have "\<not> a * a + b * b + c * c < 0"
    by (simp add: not_less)
  then show ?thesis
    by (simp add: vlength_def norm3_def)
qed

lemma norm3_nonneg: "0 \<le> norm3 a b c"
  by (simp add: norm3_def)

lemma norm3_zero_iff: "norm3 a b c = 0 \<longleftrightarrow> a = 0 \<and> b = 0 \<and> c = 0"
  unfolding norm3_def
  by (auto simp: add_nonneg_eq_0_iff)

lemma norm3_scale: "norm3 (a * k) (b * k) (c * k) = \<bar>k\<bar> * norm3 a b c"
proof -
  have "a * k * (a * k) + b * k * (b * k) + c * k * (c * k) = (k * k) * (a * a + b * b + c * c)"
    by (simp add: algebra_simps)
  then show ?thesis
    unfolding norm3_def by (simp add: real_sqrt_mult)
qed

lemma add_fin: "add (vec (Fin a) (Fin b) (Fin c)) (vec (Fin a') (Fin b') (Fin c')) =
   vec (Fin (a + a')) (Fin (b + b')) (Fin (c + c'))"
  by (simp add: add_def)

lemma clampLength_fin:
  "clampLength (Fin 0) (Fin m) (vec (Fin a) (Fin b) (Fin c)) =
     (let l = norm3 a b c; d = (if l = 0 then 1 else l); k = max 0 (min m l)
      in vec (Fin (a * (1 / d) * k)) (Fin (b * (1 / d) * k)) (Fin (c * (1 / d) * k)))"
  by (simp add: clampLength_def vlength_fin Let_def jor_def divideScalar_def multiplyScalar_def
      jmax_def jmin_def max_def min_def)

text \<open>Clamping a finite vector to a non-negative maximum gives a finite vector no longer than it.\<close>

lemma clampLength_norm:
  assumes "0 \<le> m"
  shows "\<exists>a' b' c'. clampLength (Fin 0) (Fin m) (vec (Fin a) (Fin b) (Fin c)) =
            vec (Fin a') (Fin b') (Fin c') \<and> norm3 a' b' c' \<le> m"
proof -
  define l where "l = norm3 a b c"
  define d where "d = (if l = 0 then 1 else l)"
  define k where "k = max 0 (min m l)"
  have l0: "0 \<le> l" by (simp add: l_def norm3_nonneg)
  have k0: "0 \<le> k" "k \<le> m" using assms by (auto simp: k_def)
  have eq: "clampLength (Fin 0) (Fin m) (vec (Fin a) (Fin b) (Fin c)) =
      vec (Fin (a * (1 / d * k))) (Fin (b * (1 / d * k))) (Fin (c * (1 / d * k)))"
    by (simp add: clampLength_fin Let_def l_def d_def k_def)
  have "norm3 (a * (1 / d * k)) (b * (1 / d * k)) (c * (1 / d * k)) = \<bar>1 / d * k\<bar> * l"
    by (simp only: norm3_scale l_def)
  also have "\<dots> \<le> m"
  proof (cases "l = 0")
    case True
    then show ?thesis using assms by simp
  next
    case False
    then have "d = l" "0 < l" using l0 by (auto simp: d_def)
    then have "\<bar>1 / d * k\<bar> * l = k" using k0 by (simp add: abs_mult)
    then show ?thesis using k0 by simp
  qed
  finally show ?thesis using eq by blast
qed

section \<open>The two update methods\<close>

lemma wrap_axis_range:
  assumes "jle lo hi" "is_fin p"
  shows "jle lo (wrap_axis lo hi p) \<and> jle (wrap_axis lo hi p) hi"
  using assms
  by (cases lo; cases hi; cases p) (auto simp: wrap_axis_def jle_def jeq_def jgt_def Let_def)

lemma bounce_axis_range:
  assumes "jle lo hi" "is_fin p"
  shows "jle lo (fst (bounce_axis lo hi (p, v))) \<and> jle (fst (bounce_axis lo hi (p, v))) hi"
  using assms
  by (cases lo; cases hi; cases p) (auto simp: bounce_axis_def jle_def jeq_def jgt_def Let_def)

lemma bounce_axis_vel:
  "\<exists>w. snd (bounce_axis lo hi (p, Fin v)) = Fin w \<and> w * w = v * v"
  by (simp add: bounce_axis_def Let_def)

lemma integrate_velocity:
  assumes "finite3 (velocity b)" "finite3 (acceleration b)"
  shows "\<exists>a b' c. velocity (integrate b) = vec (Fin a) (Fin b') (Fin c) \<and> norm3 a b' c \<le> MAX_SPEED"
proof -
  obtain a1 b1 c1 where v: "velocity b = vec (Fin a1) (Fin b1) (Fin c1)"
    using assms(1) finite3_vec by blast
  obtain a2 b2 c2 where a: "acceleration b = vec (Fin a2) (Fin b2) (Fin c2)"
    using assms(2) finite3_vec by blast
  have "0 \<le> MAX_SPEED" by (simp add: MAX_SPEED_def)
  from clampLength_norm [OF this, of "a1 + a2" "b1 + b2" "c1 + c2"]
  show ?thesis
    by (simp add: integrate_def Let_def v a add_fin)
qed

lemma integrate_position:
  assumes "finite3 (position b)" "finite3 (velocity b)" "finite3 (acceleration b)"
  shows "finite3 (position (integrate b))"
proof -
  obtain a b' c where v: "velocity (integrate b) = vec (Fin a) (Fin b') (Fin c)"
    using integrate_velocity [OF assms(2,3)] by blast
  obtain a1 b1 c1 where p: "position b = vec (Fin a1) (Fin b1) (Fin c1)"
    using assms(1) finite3_vec by blast
  have "position (integrate b) = add (position b) (velocity (integrate b))"
    by (simp add: integrate_def Let_def)
  then show ?thesis
    by (simp add: v p add_fin)
qed

text \<open>
  From a state of finite numbers, in the exact arithmetic of the model, both methods
  leave every coordinate of the position between well-formed bounds, ends included.
\<close>

lemma position_within_bounds_after_update:
  assumes "finite3 (position b)" and "finite3 (velocity b)" and "finite3 (acceleration b)"
    and "well_formed_bounds bmin bmax"
  shows "within_bounds bmin bmax (position (update bmin bmax b)) \<and>
         within_bounds bmin bmax (position (updateWithWrap bmin bmax b))"
proof -
  have f: "finite3 (position (integrate b))"
    using assms(1-3) by (rule integrate_position)
  have "within_bounds bmin bmax (position (update bmin bmax b))"
    using f assms(4)
    by (simp add: update_def orient_def Let_def within_bounds_def well_formed_bounds_def
        finite3_def bounce_axis_range)
  moreover have "within_bounds bmin bmax (position (updateWithWrap bmin bmax b))"
    using f assms(4)
    by (simp add: updateWithWrap_def orient_def Let_def within_bounds_def well_formed_bounds_def
        finite3_def wrap_axis_range)
  ultimately show ?thesis by simp
qed

text \<open>
  From a velocity and an acceleration of finite numbers, in the exact arithmetic of
  the model, both methods leave a velocity no longer than \<^verbatim>\<open>MAX_SPEED\<close>, whatever
  the bounds: the clamp bounds it, the reflection only negates coordinates and the
  wrap leaves the velocity alone. The rounding of the code's arithmetic is not in the
  model.
\<close>

lemma speed_bounded_after_update:
  assumes "finite3 (velocity b)" and "finite3 (acceleration b)"
  shows "jle (vlength (velocity (update bmin bmax b))) (Fin MAX_SPEED) \<and>
         jle (vlength (velocity (updateWithWrap bmin bmax b))) (Fin MAX_SPEED)"
proof -
  obtain a b' c where v: "velocity (integrate b) = vec (Fin a) (Fin b') (Fin c)"
    and n: "norm3 a b' c \<le> MAX_SPEED"
    using integrate_velocity [OF assms] by blast
  have wrap: "velocity (updateWithWrap bmin bmax b) = velocity (integrate b)"
    by (simp add: updateWithWrap_def orient_def Let_def)
  obtain wa where wa:
    "snd (bounce_axis (vx bmin) (vx bmax) (vx (position (integrate b)), Fin a)) = Fin wa"
    "wa * wa = a * a"
    using bounce_axis_vel by blast
  obtain wb where wb:
    "snd (bounce_axis (vy bmin) (vy bmax) (vy (position (integrate b)), Fin b')) = Fin wb"
    "wb * wb = b' * b'"
    using bounce_axis_vel by blast
  obtain wc where wc:
    "snd (bounce_axis (vz bmin) (vz bmax) (vz (position (integrate b)), Fin c)) = Fin wc"
    "wc * wc = c * c"
    using bounce_axis_vel by blast
  have refl: "velocity (update bmin bmax b) = vec (Fin wa) (Fin wb) (Fin wc)"
    by (simp add: update_def orient_def Let_def v wa wb wc)
  have "norm3 wa wb wc = norm3 a b' c"
    by (simp add: norm3_def wa wb wc)
  then show ?thesis
    using n by (simp add: refl wrap v vlength_fin)
qed

section \<open>Seeking a target\<close>

lemma sub_fin: "sub (vec (Fin a) (Fin b) (Fin c)) (vec (Fin a') (Fin b') (Fin c')) =
   vec (Fin (a - a')) (Fin (b - b')) (Fin (c - c'))"
  by (simp add: sub_def jsub_def)

lemma subVectors_fin:
  "subVectors (vec (Fin a) (Fin b) (Fin c)) (vec (Fin a') (Fin b') (Fin c')) =
   vec (Fin (a - a')) (Fin (b - b')) (Fin (c - c'))"
  by (simp add: subVectors_def jsub_def)

lemma multiplyScalar_fin: "multiplyScalar (vec (Fin a) (Fin b) (Fin c)) (Fin k) =
   vec (Fin (a * k)) (Fin (b * k)) (Fin (c * k))"
  by (simp add: multiplyScalar_def)

lemma normalize_fin: "normalize (vec (Fin a) (Fin b) (Fin c)) =
   (let d = (if norm3 a b c = 0 then 1 else norm3 a b c)
    in vec (Fin (a * (1 / d))) (Fin (b * (1 / d))) (Fin (c * (1 / d))))"
  by (simp add: normalize_def vlength_fin jor_def divideScalar_def multiplyScalar_def Let_def)

lemma setLength_fin:
  "\<exists>a' b' c'. setLength (vec (Fin a) (Fin b) (Fin c)) (Fin l) = vec (Fin a') (Fin b') (Fin c')"
  by (simp add: setLength_def normalize_fin Let_def multiplyScalar_fin)

text \<open>
  For a target, a position and a velocity of finite numbers, in the exact arithmetic
  of the model, \<^verbatim>\<open>seek(target)\<close> returns a vector of finite numbers no longer than
  \<^verbatim>\<open>MAX_FORCE\<close>; the target may be the boid's own position. The rounding of the
  code's arithmetic is not in the model.
\<close>

lemma seek_bounded:
  assumes "finite3 target" and "finite3 (position b)" and "finite3 (velocity b)"
  shows "finite3 (seek b target) \<and> jle (vlength (seek b target)) (Fin MAX_FORCE)"
proof -
  obtain t1 t2 t3 where t: "target = vec (Fin t1) (Fin t2) (Fin t3)"
    using assms(1) finite3_vec by blast
  obtain p1 p2 p3 where p: "position b = vec (Fin p1) (Fin p2) (Fin p3)"
    using assms(2) finite3_vec by blast
  obtain v1 v2 v3 where v: "velocity b = vec (Fin v1) (Fin v2) (Fin v3)"
    using assms(3) finite3_vec by blast
  obtain d1 d2 d3 where d:
    "setLength (vec (Fin (t1 - p1)) (Fin (t2 - p2)) (Fin (t3 - p3))) (Fin MAX_SPEED)
      = vec (Fin d1) (Fin d2) (Fin d3)"
    using setLength_fin by blast
  have "0 \<le> MAX_FORCE" by (simp add: MAX_FORCE_def)
  from clampLength_norm [OF this, of "d1 - v1" "d2 - v2" "d3 - v3"]
  obtain a' b' c' where r: "seek b target = vec (Fin a') (Fin b') (Fin c')"
    and n: "norm3 a' b' c' \<le> MAX_FORCE"
    by (auto simp: seek_def Let_def t p v subVectors_fin d)
  show ?thesis
    using n by (simp add: r vlength_fin)
qed

section \<open>Separation\<close>

lemma upt_0_2: "[0..<2] = [0, 1]"
  by (simp add: upt_rec)

lemma upt_0_3: "[0..<3] = [0, 1, 2]"
  by (simp add: upt_rec)

lemma distanceTo_fin:
  "distanceTo (vec (Fin a) (Fin b) (Fin c)) (vec (Fin a') (Fin b') (Fin c')) =
     Fin (norm3 (a - a') (b - b') (c - c'))"
proof -
  have "\<not> (a - a') * (a - a') + (b - b') * (b - b') + (c - c') * (c - c') < 0"
    by (simp add: not_less)
  then show ?thesis
    by (simp add: distanceTo_def distanceToSquared_def jsub_def norm3_def Let_def)
qed

lemma norm3_0 [simp]: "norm3 0 0 0 = 0"
  by (simp add: norm3_def)

lemma norm3_eq: "0 \<le> r \<Longrightarrow> a * a + b * b + c * c = r * r \<Longrightarrow> norm3 a b c = r"
  by (simp add: norm3_def)

lemma norm3_x: "norm3 a 0 0 = \<bar>a\<bar>"
  by (simp add: norm3_def)

lemma norm3_y: "norm3 0 b 0 = \<bar>b\<bar>"
  by (simp add: norm3_def)

lemma norm3_345a: "norm3 (- (1 / 4)) (- (1 / 3)) 0 = 5 / 12"
  by (rule norm3_eq) simp_all

lemma norm3_345b: "norm3 (- (3 / 10)) (- (2 / 5)) 0 = 1 / 2"
  by (rule norm3_eq) simp_all

lemma vlength_zero3: "vlength zero3 = Fin 0"
  by (simp add: zero3_def vlength_fin)

text \<open>The loop of \<^verbatim>\<open>separation\<close> adds up the terms of the qualifying indices and counts them.\<close>

lemma separation_fold:
  "fold (separation_body boids i) xs acc =
     (foldl add (fst acc)
        (map (\<lambda>j. repulsion_unit (position (boids ! i)) (position (boids ! j)))
           (filter (\<lambda>j. j \<noteq> i \<and>
                jlt (distanceTo (position (boids ! i)) (position (boids ! j)))
                    (Fin DESIRED_SEPARATION)) xs)),
      snd acc + length (filter (\<lambda>j. j \<noteq> i \<and>
                jlt (distanceTo (position (boids ! i)) (position (boids ! j)))
                    (Fin DESIRED_SEPARATION)) xs))"
proof (induction xs arbitrary: acc)
  case Nil
  then show ?case by simp
next
  case (Cons j xs)
  have step: "separation_body boids i j acc =
      (if j \<noteq> i \<and> jlt (distanceTo (position (boids ! i)) (position (boids ! j)))
                        (Fin DESIRED_SEPARATION)
       then (add (fst acc) (repulsion_unit (position (boids ! i)) (position (boids ! j))),
             snd acc + 1)
       else acc)"
    by (simp add: separation_body_def repulsion_unit_def Let_def)
  have "fold (separation_body boids i) (j # xs) acc =
      fold (separation_body boids i) xs (separation_body boids i j acc)"
    by simp
  also note Cons.IH
  finally show ?case
    by (simp add: step)
qed

lemma separation_is_described:
  "separation boids i = separation_described repulsion_unit boids i"
proof (cases "separation_neighbors boids i = []")
  case True
  then show ?thesis
    by (simp add: separation_def separation_described_def separation_fold Let_def
        separation_neighbors_def vlength_zero3 jgt_def)
next
  case False
  then have "0 < length (separation_neighbors boids i)" by simp
  with False show ?thesis
    by (simp add: separation_def separation_described_def separation_fold Let_def
        separation_neighbors_def)
qed

lemma repulsion_unit_fin:
  assumes "0 < norm3 (a - a') (b - b') (c - c')"
  shows "repulsion_unit (vec (Fin a) (Fin b) (Fin c)) (vec (Fin a') (Fin b') (Fin c')) =
     (let d = norm3 (a - a') (b - b') (c - c')
      in vec (Fin ((a - a') / (d * d))) (Fin ((b - b') / (d * d))) (Fin ((c - c') / (d * d))))"
  using assms
  by (simp add: repulsion_unit_def subVectors_fin normalize_fin distanceTo_fin divideScalar_def
      multiplyScalar_def Let_def)

lemma separation_skew:
  "separation skew_flock 0 = vec (Fin (- (39 / 500))) (Fin (- (13 / 125))) (Fin 0)"
  by (simp add: separation_def separation_body_def skew_flock_def upt_0_3 distanceTo_fin
      subVectors_fin sub_fin normalize_fin divideScalar_def multiplyScalar_def add_def zero3_def
      DESIRED_SEPARATION_def MAX_SPEED_def MAX_FORCE_def Let_def vlength_fin jgt_def
      norm3_x norm3_y norm3_345a norm3_345b setLength_def clampLength_fin)

lemma separation_claimed_skew:
  "vx (separation_described repulsion_claimed skew_flock 0) =
   vy (separation_described repulsion_claimed skew_flock 0)"
  by (simp add: separation_described_def separation_neighbors_def repulsion_claimed_def
      skew_flock_def upt_0_3 distanceTo_fin subVectors_fin sub_fin normalize_fin divideScalar_def
      multiplyScalar_def add_def zero3_def DESIRED_SEPARATION_def MAX_SPEED_def MAX_FORCE_def
      Let_def vlength_fin jgt_def norm3_x norm3_y setLength_def clampLength_fin)

text \<open>
  Claim C4, as stated: the term accumulated for a neighbour is the difference of the
  positions divided by the distance. It fails for the boid at the origin with
  neighbours at distances 2 and 3/2 on two axes: with the claimed term both
  neighbours would weigh the same and the result would have equal x and y
  coordinates, and the code returns the x coordinate -0.078 and the y coordinate
  -0.104.
\<close>

theorem separation_term_counterexample:
  "separation skew_flock 0 \<noteq> separation_described repulsion_claimed skew_flock 0"
proof
  assume "separation skew_flock 0 = separation_described repulsion_claimed skew_flock 0"
  then have "vx (separation skew_flock 0) = vy (separation skew_flock 0)"
    using separation_claimed_skew by simp
  then show False
    by (simp add: separation_skew)
qed

text \<open>
  Claim C4, amended. \<^verbatim>\<open>separation\<close> accumulates, for every other boid at a distance
  strictly below \<^verbatim>\<open>DESIRED_SEPARATION\<close>, the normalised difference of the positions
  divided by the distance, which for finite positions at a positive distance \<open>d\<close> is
  the difference divided by \<open>d * d\<close>, a vector of length \<open>1 / d\<close>; the rest is as
  described: the average over the neighbours, set to length \<^verbatim>\<open>MAX_SPEED\<close>, less the
  velocity and clamped to \<^verbatim>\<open>MAX_FORCE\<close> when its length is positive, and the zero
  vector when no neighbour qualifies.
\<close>

theorem separation_accumulates_unit_over_distance:
  "separation boids i = separation_described repulsion_unit boids i \<and>
   (0 < norm3 (a - a') (b - b') (c - c') \<longrightarrow>
      repulsion_unit (vec (Fin a) (Fin b) (Fin c)) (vec (Fin a') (Fin b') (Fin c')) =
        (let d = norm3 (a - a') (b - b') (c - c')
         in vec (Fin ((a - a') / (d * d))) (Fin ((b - b') / (d * d)))
                (Fin ((c - c') / (d * d)))))"
  using separation_is_described repulsion_unit_fin by blast

theorem separation_accumulates_unit_over_distance_witness:
  "0 < norm3 (0 - 2) (0 - 0) (0 - 0) \<and>
   separation skew_flock 0 = separation_described repulsion_unit skew_flock 0 \<and>
   repulsion_unit (vec (Fin 0) (Fin 0) (Fin 0)) (vec (Fin 2) (Fin 0) (Fin 0)) =
     vec (Fin (- (1 / 2))) (Fin 0) (Fin 0)"
proof -
  have h: "0 < norm3 (0 - 2) (0 - 0) (0 - 0)"
    by (simp add: norm3_x)
  show ?thesis
    using h separation_accumulates_unit_over_distance [of skew_flock 0 0 2 0 0 0 0]
    by (simp add: norm3_x Let_def)
qed

lemma separation_coincident: "separation coincident_flock 0 = nan3"
  by (simp add: nan3_def separation_def separation_body_def coincident_flock_def upt_0_2
      distanceTo_fin subVectors_fin normalize_fin divideScalar_def multiplyScalar_def add_def
      zero3_def DESIRED_SEPARATION_def Let_def vlength_def jgt_def)

text \<open>
  Claim C10 asks that \<^verbatim>\<open>separation\<close> return a vector of finite numbers also when
  another boid is at distance zero. The code divides the normalised difference, the
  zero vector, by the distance zero: \<^verbatim>\<open>1 / 0\<close> is Infinity and \<^verbatim>\<open>0 * Infinity\<close> is
  NaN, the test \<^verbatim>\<open>steer.length() > 0\<close> is false on NaN, and the NaN vector is
  returned as it is.
\<close>

theorem separation_coincident_is_NaN:
  "separation coincident_flock 0 = vec NaN NaN NaN"
  using separation_coincident by (simp add: nan3_def)

section \<open>The state after construction\<close>

lemma lerp_fin: "lerp (Fin a) (Fin b) (Fin t) = Fin ((1 - t) * a + t * b)"
  by (simp add: lerp_def jsub_def)

lemma lerp_range:
  assumes "a \<le> b" "0 \<le> t" "t \<le> 1"
  shows "a \<le> (1 - t) * a + t * b \<and> (1 - t) * a + t * b \<le> (b::real)"
proof -
  have 1: "(1 - t) * a + t * b - a = t * (b - a)" by (simp add: algebra_simps)
  have 2: "b - ((1 - t) * a + t * b) = (1 - t) * (b - a)" by (simp add: algebra_simps)
  have "0 \<le> t * (b - a)" "0 \<le> (1 - t) * (b - a)"
    using assms by simp_all
  with 1 2 show ?thesis by linarith
qed

lemma lerp_within:
  assumes "is_fin lo" "is_fin hi" "jle lo hi" "is_random r"
  shows "jle lo (lerp lo hi (Fin r)) \<and> jle (lerp lo hi (Fin r)) hi"
proof -
  obtain a where a: "lo = Fin a" using assms(1) by (cases lo) auto
  obtain b where b: "hi = Fin b" using assms(2) by (cases hi) auto
  have "a \<le> b" using assms(3) by (simp add: a b)
  then show ?thesis
    using assms(4) lerp_range [of a b r] by (simp add: a b lerp_fin is_random_def)
qed

lemma unit_scaled_norm:
  assumes "norm3 a b c \<noteq> 0" "0 \<le> m"
  shows "norm3 (a * (1 / norm3 a b c) * m) (b * (1 / norm3 a b c) * m) (c * (1 / norm3 a b c) * m) = m"
proof -
  have pos: "0 < norm3 a b c"
    using assms(1) norm3_nonneg [of a b c] by simp
  have "norm3 (a * (1 / norm3 a b c * m)) (b * (1 / norm3 a b c * m)) (c * (1 / norm3 a b c * m))
      = \<bar>1 / norm3 a b c * m\<bar> * norm3 a b c"
    by (rule norm3_scale)
  also have "\<dots> = m"
    using pos assms(2) by (simp add: abs_mult)
  finally show ?thesis by (simp add: mult.assoc)
qed

text \<open>
  For draws that are at least 0 and less than 1 and well-formed finite bounds, in the
  exact arithmetic of the model, the constructor gives a position with every
  coordinate within the bounds; the velocity has length \<^verbatim>\<open>MAX_SPEED\<close> unless the
  three draws for it are all 1/2, and then it is the zero vector.
\<close>

lemma new_Boid_state:
  assumes "is_random r1" and "is_random r2" and "is_random r3"
    and "is_random r4" and "is_random r5" and "is_random r6"
    and "finite3 bmin" and "finite3 bmax" and "well_formed_bounds bmin bmax"
  shows "within_bounds bmin bmax (position (new_Boid bmin bmax r1 r2 r3 r4 r5 r6)) \<and>
         (if r4 = 1 / 2 \<and> r5 = 1 / 2 \<and> r6 = 1 / 2
          then velocity (new_Boid bmin bmax r1 r2 r3 r4 r5 r6) = zero3
          else vlength (velocity (new_Boid bmin bmax r1 r2 r3 r4 r5 r6)) = Fin MAX_SPEED)"
proof -
  have p: "within_bounds bmin bmax (position (new_Boid bmin bmax r1 r2 r3 r4 r5 r6))"
    using assms
    by (simp add: new_Boid_def within_bounds_def well_formed_bounds_def finite3_def lerp_within)
  have v: "velocity (new_Boid bmin bmax r1 r2 r3 r4 r5 r6) =
      multiplyScalar (normalize (vec (Fin (r4 - 1 / 2)) (Fin (r5 - 1 / 2)) (Fin (r6 - 1 / 2))))
        (Fin MAX_SPEED)"
    by (simp add: new_Boid_def jsub_def)
  show ?thesis
  proof (cases "r4 = 1 / 2 \<and> r5 = 1 / 2 \<and> r6 = 1 / 2")
    case True
    then have r: "r4 = 1 / 2" "r5 = 1 / 2" "r6 = 1 / 2" by simp_all
    have "velocity (new_Boid bmin bmax r1 r2 r3 r4 r5 r6) = zero3"
      by (simp add: new_Boid_def jsub_def r normalize_fin multiplyScalar_fin zero3_def)
    with p True show ?thesis
      by (simp only: if_True simp_thms)
  next
    case False
    then have nz: "norm3 (r4 - 1 / 2) (r5 - 1 / 2) (r6 - 1 / 2) \<noteq> 0"
      by (auto simp: norm3_zero_iff)
    have "0 \<le> MAX_SPEED" by (simp add: MAX_SPEED_def)
    from unit_scaled_norm [OF nz this] nz
    have "vlength (velocity (new_Boid bmin bmax r1 r2 r3 r4 r5 r6)) = Fin MAX_SPEED"
      by (simp add: v normalize_fin multiplyScalar_fin vlength_fin Let_def)
    with p False show ?thesis
      by (simp only: if_False simp_thms)
  qed
qed

section \<open>Orientation\<close>

lemma jmul_self_fin: "jmul a a = Fin r \<Longrightarrow> \<exists>t. a = Fin t \<and> r = t * t"
  by (cases a) auto

lemma jadd_fin_inv: "jadd a b = Fin r \<Longrightarrow> \<exists>s t. a = Fin s \<and> b = Fin t \<and> r = s + t"
  by (cases a; cases b) auto

lemma jsqrt_zero_inv: "jsqrt a = Fin 0 \<Longrightarrow> a = Fin 0"
  by (cases a) (auto split: if_splits)

lemma vlength_zero_inv:
  assumes "vlength v = Fin 0"
  shows "v = zero3"
proof -
  from assms have "jadd (jadd (jmul (vx v) (vx v)) (jmul (vy v) (vy v))) (jmul (vz v) (vz v)) = Fin 0"
    by (simp add: vlength_def jsqrt_zero_inv)
  then obtain s t where 1: "jadd (jmul (vx v) (vx v)) (jmul (vy v) (vy v)) = Fin s"
    and 2: "jmul (vz v) (vz v) = Fin t" and 3: "0 = s + t"
    using jadd_fin_inv by blast
  from 1 obtain s1 s2 where 4: "jmul (vx v) (vx v) = Fin s1" and 5: "jmul (vy v) (vy v) = Fin s2"
    and 6: "s = s1 + s2"
    using jadd_fin_inv by blast
  from 4 obtain a where a: "vx v = Fin a" "s1 = a * a" using jmul_self_fin by blast
  from 5 obtain b where b: "vy v = Fin b" "s2 = b * b" using jmul_self_fin by blast
  from 2 obtain c where c: "vz v = Fin c" "t = c * c" using jmul_self_fin by blast
  have "a * a + b * b + c * c = 0" using 3 6 a b c by simp
  then have "a = 0 \<and> b = 0 \<and> c = 0"
    by (simp add: add_nonneg_eq_0_iff)
  then show ?thesis
    using a b c by (cases v) (simp add: zero3_def vec_def)
qed

lemma normalize_zero3: "normalize zero3 = zero3"
  by (simp add: zero3_def normalize_fin)

lemma setFromUnitVectors_up_zero:
  "setFromUnitVectors (vec (Fin 0) (Fin 1) (Fin 0)) zero3 = identity_quaternion"
  by (simp add: setFromUnitVectors_def dot_def zero3_def EPSILON_def jsub_def qnormalize_def
      qlength_def jeq_def identity_quaternion_def Let_def)

lemma orient_zero_velocity:
  "velocity b = zero3 \<Longrightarrow> mesh_quaternion (orient b) = identity_quaternion"
  by (simp add: orient_def normalize_zero3 setFromUnitVectors_up_zero)

lemma velocity_orient [simp]: "velocity (orient b) = velocity b"
  by (simp add: orient_def)

lemma position_orient [simp]: "position (orient b) = position b"
  by (simp add: orient_def)

text \<open>
  Claim C6, amended. When the velocity has zero length at the end of \<^verbatim>\<open>update()\<close>
  or \<^verbatim>\<open>updateWithWrap()\<close>, the rotation of the mesh is the one computed from the
  normalised velocity all the same: \<^verbatim>\<open>normalize\<close> leaves the zero vector zero, and
  \<^verbatim>\<open>setFromUnitVectors\<close> of the up vector and the zero vector is the identity
  rotation, whatever the rotation was before.
\<close>

theorem zero_velocity_resets_orientation:
  "(vlength (velocity (update bmin bmax b)) = Fin 0 \<longrightarrow>
      mesh_quaternion (update bmin bmax b) = identity_quaternion) \<and>
   (vlength (velocity (updateWithWrap bmin bmax b)) = Fin 0 \<longrightarrow>
      mesh_quaternion (updateWithWrap bmin bmax b) = identity_quaternion)"
proof -
  have "mesh_quaternion (update bmin bmax b) = identity_quaternion"
    if "vlength (velocity (update bmin bmax b)) = Fin 0"
  proof -
    from that have "velocity (update bmin bmax b) = zero3" by (rule vlength_zero_inv)
    then show ?thesis
      by (simp add: update_def Let_def orient_zero_velocity)
  qed
  moreover have "mesh_quaternion (updateWithWrap bmin bmax b) = identity_quaternion"
    if "vlength (velocity (updateWithWrap bmin bmax b)) = Fin 0"
  proof -
    from that have "velocity (updateWithWrap bmin bmax b) = zero3" by (rule vlength_zero_inv)
    then show ?thesis
      by (simp add: updateWithWrap_def Let_def orient_zero_velocity)
  qed
  ultimately show ?thesis by blast
qed

lemma update_still:
  "velocity (update default_min default_max still_boid) = zero3"
  "velocity (updateWithWrap default_min default_max still_boid) = zero3"
  by (simp_all add: update_def updateWithWrap_def integrate_def still_boid_def Let_def add_fin
      clampLength_fin bounce_axis_def wrap_axis_def default_min_def default_max_def jgt_def
      zero3_def)

text \<open>
  Claim C6, as stated: with a velocity of zero length the orientation is left at its
  previous value. A boid at rest with no force on it, whose mesh has the rotation of
  a boid heading straight down, has another rotation after either update.
\<close>

theorem orientation_not_held_counterexample:
  "vlength (velocity (update default_min default_max still_boid)) = Fin 0 \<and>
   mesh_quaternion (update default_min default_max still_boid) \<noteq> mesh_quaternion still_boid \<and>
   vlength (velocity (updateWithWrap default_min default_max still_boid)) = Fin 0 \<and>
   mesh_quaternion (updateWithWrap default_min default_max still_boid) \<noteq>
     mesh_quaternion still_boid"
proof -
  have "mesh_quaternion (update default_min default_max still_boid) = identity_quaternion"
    using update_still(1) by (simp add: update_def Let_def orient_zero_velocity)
  moreover have "mesh_quaternion (updateWithWrap default_min default_max still_boid) = identity_quaternion"
    using update_still(2) by (simp add: updateWithWrap_def Let_def orient_zero_velocity)
  moreover have "mesh_quaternion still_boid \<noteq> identity_quaternion"
    by (simp add: still_boid_def identity_quaternion_def)
  ultimately show ?thesis
    by (simp add: update_still vlength_zero3)
qed

theorem zero_velocity_resets_orientation_witness:
  "vlength (velocity (update default_min default_max still_boid)) = Fin 0 \<and>
   mesh_quaternion (update default_min default_max still_boid) = identity_quaternion \<and>
   vlength (velocity (updateWithWrap default_min default_max still_boid)) = Fin 0 \<and>
   mesh_quaternion (updateWithWrap default_min default_max still_boid) = identity_quaternion"
proof -
  have h: "vlength (velocity (update default_min default_max still_boid)) = Fin 0"
    "vlength (velocity (updateWithWrap default_min default_max still_boid)) = Fin 0"
    by (simp_all add: update_still vlength_zero3)
  show ?thesis
    using h zero_velocity_resets_orientation [of default_min default_max still_boid] by simp
qed

section \<open>One frame\<close>

lemma length_animate_body [simp]: "length (animate_body bmin bmax i boids) = length boids"
  by (simp add: animate_body_def Let_def)

lemma animate_body_other: "j \<noteq> i \<Longrightarrow> animate_body bmin bmax i boids ! j = boids ! j"
  by (simp add: animate_body_def Let_def)

lemma animate_body_self:
  "i < length boids \<Longrightarrow> animate_body bmin bmax i boids ! i = update bmin bmax (flock boids i)"
  by (simp add: animate_body_def Let_def)

lemma fold_upt_Suc:
  "fold f [0..<Suc k] s = f k (fold f [0..<k] s)"
  by simp

lemma length_prefix [simp]:
  "length (fold (animate_body bmin bmax) [0..<k] boids) = length boids"
  by (induction k) simp_all

lemma prefix_untouched:
  "k \<le> j \<Longrightarrow> fold (animate_body bmin bmax) [0..<k] boids ! j = boids ! j"
  by (induction k) (simp_all add: animate_body_other)

lemma prefix_settled:
  "j < k \<Longrightarrow> k \<le> m \<Longrightarrow>
     fold (animate_body bmin bmax) [0..<m] boids ! j = fold (animate_body bmin bmax) [0..<k] boids ! j"
proof (induction m)
  case 0
  then show ?case by simp
next
  case (Suc m)
  show ?case
  proof (cases "k = Suc m")
    case True
    then show ?thesis by simp
  next
    case False
    with Suc.prems have "k \<le> m" by simp
    with Suc have "fold (animate_body bmin bmax) [0..<m] boids ! j =
        fold (animate_body bmin bmax) [0..<k] boids ! j" by simp
    moreover have "j \<noteq> m" using Suc.prems \<open>k \<le> m\<close> by simp
    ultimately show ?thesis
      by (simp add: animate_body_other)
  qed
qed

lemma prefix_state:
  assumes "i \<le> length boids"
  shows "fold (animate_body bmin bmax) [0..<i] boids =
         take i (animate bmin bmax boids) @ drop i boids"
proof (rule nth_equalityI)
  show "length (fold (animate_body bmin bmax) [0..<i] boids) =
        length (take i (animate bmin bmax boids) @ drop i boids)"
    using assms by (simp add: animate_def)
next
  fix j
  assume "j < length (fold (animate_body bmin bmax) [0..<i] boids)"
  then have j: "j < length boids" by simp
  show "fold (animate_body bmin bmax) [0..<i] boids ! j =
        (take i (animate bmin bmax boids) @ drop i boids) ! j"
  proof (cases "j < i")
    case True
    then show ?thesis
      using assms prefix_settled [of j i "length boids" bmin bmax boids]
      by (simp add: nth_append animate_def)
  next
    case False
    then show ?thesis
      using assms j by (simp add: nth_append animate_def prefix_untouched)
  qed
qed

text \<open>
  Claim C1, amended. In one frame the boid at index \<open>i\<close> computes its forces from the
  array as the rounds before it have left it: the boids before it in the array are
  already in their state of the end of the frame, position and velocity integrated,
  and the boid itself and those after it are in their state of the start of the
  frame. Its own update follows at once, before the next boid computes its forces.
\<close>

theorem animate_interleaved:
  assumes "i < length boids"
  shows "animate bmin bmax boids ! i =
         update bmin bmax (flock (take i (animate bmin bmax boids) @ drop i boids) i)"
proof -
  have "animate bmin bmax boids ! i = fold (animate_body bmin bmax) [0..<Suc i] boids ! i"
    using assms prefix_settled [of i "Suc i" "length boids" bmin bmax boids]
    by (simp add: animate_def del: upt_Suc)
  also have "\<dots> = animate_body bmin bmax i (fold (animate_body bmin bmax) [0..<i] boids) ! i"
    by simp
  also have "\<dots> = update bmin bmax (flock (fold (animate_body bmin bmax) [0..<i] boids) i)"
    using assms by (simp add: animate_body_self)
  finally show ?thesis
    using assms by (simp add: prefix_state)
qed

theorem animate_interleaved_witness:
  "1 < length approach_flock \<and>
   animate default_min default_max approach_flock ! 1 =
     update default_min default_max
       (flock (take 1 (animate default_min default_max approach_flock) @ drop 1 approach_flock) 1)"
proof -
  have h: "1 < length approach_flock"
    by (simp add: approach_flock_def)
  show ?thesis
    using h animate_interleaved [OF h, of default_min default_max] by simp
qed

lemmas approach_eval = upt_0_2 distanceTo_fin subVectors_fin sub_fin add_fin normalize_fin
  multiplyScalar_fin divideScalar_def multiplyScalar_def add_def zero3_def
  DESIRED_SEPARATION_def NEIGHBOR_DIST_def MAX_SPEED_def MAX_FORCE_def Let_def vlength_fin jgt_def
  norm3_x norm3_y setLength_def clampLength_fin

text \<open>From the state of the start of the frame the second boid has no neighbour and no force.\<close>

lemma flock_approach_1: "flock approach_flock 1 = approach_flock ! 1"
  by (simp add: flock_def separation_def separation_body_def alignment_def alignment_body_def
      cohesion_def cohesion_body_def applyForce_def approach_flock_def approach_eval)

lemma update_approach_1:
  "velocity (update default_min default_max (approach_flock ! 1)) =
     vec (Fin (1 / 2)) (Fin 0) (Fin 0)"
  by (simp add: update_def integrate_def bounce_axis_def default_min_def default_max_def
      approach_flock_def approach_eval)

text \<open>In the frame of the code it is pulled back towards the first boid, which has moved.\<close>

lemma animate_approach_1:
  "velocity (animate default_min default_max approach_flock ! 1) =
     vec (Fin (37 / 100)) (Fin 0) (Fin 0)"
  by (simp add: animate_def animate_body_def flock_def separation_def separation_body_def
      alignment_def alignment_body_def seek_def
      cohesion_def cohesion_body_def applyForce_def approach_flock_def
      update_def integrate_def bounce_axis_def default_min_def default_max_def approach_eval)

text \<open>
  Claim C1, as stated: every boid's forces are computed from the positions and
  velocities of the start of the frame. Of two boids 5.25 apart, both with velocity
  (0.5, 0, 0), the second would then see no neighbour and keep its velocity. In the
  code the first boid has moved to 4.75 from it when the second computes its forces,
  cohesion pulls the second back, and its velocity after the frame is (0.37, 0, 0).
\<close>

theorem animate_two_phase_counterexample:
  "velocity (animate default_min default_max approach_flock ! 1) \<noteq>
   velocity (update default_min default_max (flock approach_flock 1))"
  unfolding animate_approach_1 flock_approach_1 update_approach_1
  by simp

section \<open>What the queries and flock write\<close>

lemma lim_mutate [simp]: "lim (mutate a f h) = lim h"
  by (simp add: mutate_def)

lemma cells_mutate [simp]:
  "cells (mutate a f h) b = (if b = a then f (cells h a) else cells h b)"
  by (simp add: mutate_def)

lemma fst_alloc [simp]: "fst (alloc v h) = lim h"
  by (simp add: alloc_def)

lemma lim_alloc [simp]: "lim (snd (alloc v h)) = Suc (lim h)"
  by (simp add: alloc_def)

lemma cells_alloc [simp]:
  "cells (snd (alloc v h)) a = (if a = lim h then v else cells h a)"
  by (simp add: alloc_def)

lemma allocatedD:
  "allocated h boids \<Longrightarrow> j < length boids \<Longrightarrow>
     position_ref (boids ! j) < lim h \<and> velocity_ref (boids ! j) < lim h \<and>
     acceleration_ref (boids ! j) < lim h"
  by (simp add: allocated_def)

lemma extends_from_alloc: "extends_from h (fst (alloc v h)) (snd (alloc v h))"
  by (simp add: extends_from_def)

lemma extends_from_frame: "extends_from h0 r h \<Longrightarrow> frame h0 h"
  by (simp add: extends_from_def frame_def)

lemma extends_from_read: "extends_from h0 r h \<Longrightarrow> a < lim h0 \<Longrightarrow> cells h a = cells h0 a"
  by (simp add: extends_from_def)

lemma extends_from_mutate:
  "extends_from h0 r h \<Longrightarrow> lim h0 \<le> a \<Longrightarrow> extends_from h0 r (mutate a f h)"
  by (simp add: extends_from_def)

lemma h_seek_result:
  assumes "frame h0 h" "position_ref this < lim h0" "velocity_ref this < lim h0" "target < lim h"
  shows "extends_from h (fst (h_seek this target h)) (snd (h_seek this target h)) \<and>
         frame h0 (snd (h_seek this target h)) \<and>
         cells (snd (h_seek this target h)) (fst (h_seek this target h)) =
           seek \<lparr>position = cells h0 (position_ref this), velocity = cells h0 (velocity_ref this),
                 acceleration = ac, mesh_position = mp, mesh_quaternion = mq\<rparr> (cells h target)"
  using assms
  by (auto simp: h_seek_def seek_def case_prod_beta Let_def extends_from_def frame_def)

lemma boid_of_sel [simp]:
  "position (boid_of h b) = cells h (position_ref b)"
  "velocity (boid_of h b) = cells h (velocity_ref b)"
  "acceleration (boid_of h b) = cells h (acceleration_ref b)"
  by (simp_all add: boid_of_def)

lemma h_separation_body_step:
  assumes "extends_from h0 steer h" "allocated h0 boids" "i < length boids" "j < length boids"
  shows "extends_from h0 steer (snd (h_separation_body boids i steer j (c, h))) \<and>
         (cells (snd (h_separation_body boids i steer j (c, h))) steer,
          fst (h_separation_body boids i steer j (c, h))) =
           separation_body (map (boid_of h0) boids) i j (cells h steer, c)"
proof -
  have pi: "cells h (position_ref (boids ! i)) = cells h0 (position_ref (boids ! i))"
    using assms allocatedD extends_from_read by blast
  have pj: "cells h (position_ref (boids ! j)) = cells h0 (position_ref (boids ! j))"
    using assms allocatedD extends_from_read by blast
  have lt: "position_ref (boids ! i) < lim h" "position_ref (boids ! j) < lim h" "steer < lim h"
    "lim h0 \<le> lim h"
    using assms(1) allocatedD [OF assms(2,3)] allocatedD [OF assms(2,4)]
    by (auto simp: extends_from_def)
  show ?thesis
    using assms(1,3,4) lt
    by (auto simp: h_separation_body_def separation_body_def Let_def case_prod_beta pi pj
        extends_from_def)
qed

lemma h_separation_fold:
  assumes "allocated h0 boids" "i < length boids"
  shows "extends_from h0 steer h \<Longrightarrow> \<forall>j \<in> set xs. j < length boids \<Longrightarrow>
         extends_from h0 steer (snd (fold (h_separation_body boids i steer) xs (c, h))) \<and>
         (cells (snd (fold (h_separation_body boids i steer) xs (c, h))) steer,
          fst (fold (h_separation_body boids i steer) xs (c, h))) =
           fold (separation_body (map (boid_of h0) boids) i) xs (cells h steer, c)"
proof (induction xs arbitrary: c h)
  case Nil
  then show ?case by simp
next
  case (Cons j xs)
  define st where "st = h_separation_body boids i steer j (c, h)"
  have j: "j < length boids" using Cons.prems(2) by simp
  from h_separation_body_step [OF Cons.prems(1) assms(1,2) j, of c]
  have ext: "extends_from h0 steer (snd st)"
    and val: "(cells (snd st) steer, fst st) =
       separation_body (map (boid_of h0) boids) i j (cells h steer, c)"
    by (simp_all add: st_def)
  have rest: "\<forall>j \<in> set xs. j < length boids" using Cons.prems(2) by simp
  from Cons.IH [OF ext rest, of "fst st"]
  show ?case
    by (simp add: st_def [symmetric] val)
qed

text \<open>
  The vector \<^verbatim>\<open>separation\<close> returns is new, the old vectors are as they were, and
  its value is that of \<open>separation\<close> on the values of the flock.
\<close>

lemma h_separation_result:
  assumes "allocated h boids" "i < length boids"
  shows "extends_from h (fst (h_separation boids i h)) (snd (h_separation boids i h)) \<and>
         cells (snd (h_separation boids i h)) (fst (h_separation boids i h)) =
           separation (map (boid_of h) boids) i"
proof -
  define steer where "steer = lim h"
  define h1 where "h1 = snd (alloc zero3 h)"
  define st where "st = fold (h_separation_body boids i steer) [0..<length boids] (0, h1)"
  have a: "alloc zero3 h = (steer, h1)"
    by (simp add: steer_def h1_def alloc_def)
  have e1: "extends_from h steer h1"
    using extends_from_alloc [of h zero3] by (simp add: steer_def h1_def)
  have c1: "cells h1 steer = zero3"
    by (simp add: steer_def h1_def)
  have "\<forall>j \<in> set [0..<length boids]. j < length boids" by simp
  from h_separation_fold [OF assms e1 this, of 0]
  have e2: "extends_from h steer (snd st)"
    and v2: "(cells (snd st) steer, fst st) =
       fold (separation_body (map (boid_of h) boids) i) [0..<length boids] (zero3, 0)"
    by (simp_all add: st_def c1)
  have v2a: "fst (fold (separation_body (map (boid_of h) boids) i) [0..<length boids] (zero3, 0))
      = cells (snd st) steer"
    and v2b: "snd (fold (separation_body (map (boid_of h) boids) i) [0..<length boids] (zero3, 0))
      = fst st"
    using v2 [symmetric] by simp_all
  have vel: "velocity_ref (boids ! i) < lim h"
    using allocatedD [OF assms] by simp
  then have ne: "velocity_ref (boids ! i) \<noteq> steer"
    by (simp add: steer_def)
  have rd: "cells (snd st) (velocity_ref (boids ! i)) = cells h (velocity_ref (boids ! i))"
    using e2 vel by (rule extends_from_read)
  have ge: "lim h \<le> steer" by (simp add: steer_def)
  show ?thesis
    using e2 ge ne assms(2)
    by (simp add: h_separation_def a st_def [symmetric] separation_def Let_def v2a v2b
        extends_from_mutate rd)
qed

lemma h_alignment_body_step:
  assumes "extends_from h0 s h" "allocated h0 boids" "i < length boids" "j < length boids"
  shows "extends_from h0 s (snd (h_alignment_body boids i s j (c, h))) \<and>
         (cells (snd (h_alignment_body boids i s j (c, h))) s,
          fst (h_alignment_body boids i s j (c, h))) =
           alignment_body (map (boid_of h0) boids) i j (cells h s, c)"
proof -
  have pi: "cells h (position_ref (boids ! i)) = cells h0 (position_ref (boids ! i))"
    using assms allocatedD extends_from_read by blast
  have pj: "cells h (position_ref (boids ! j)) = cells h0 (position_ref (boids ! j))"
    using assms allocatedD extends_from_read by blast
  have vj: "cells h (velocity_ref (boids ! j)) = cells h0 (velocity_ref (boids ! j))"
    using assms allocatedD extends_from_read by blast
  show ?thesis
    using assms(1,3,4)
    by (auto simp: h_alignment_body_def alignment_body_def Let_def pi pj vj extends_from_def)
qed

lemma h_alignment_fold:
  assumes "allocated h0 boids" "i < length boids"
  shows "extends_from h0 s h \<Longrightarrow> \<forall>j \<in> set xs. j < length boids \<Longrightarrow>
         extends_from h0 s (snd (fold (h_alignment_body boids i s) xs (c, h))) \<and>
         (cells (snd (fold (h_alignment_body boids i s) xs (c, h))) s,
          fst (fold (h_alignment_body boids i s) xs (c, h))) =
           fold (alignment_body (map (boid_of h0) boids) i) xs (cells h s, c)"
proof (induction xs arbitrary: c h)
  case Nil
  then show ?case by simp
next
  case (Cons j xs)
  define st where "st = h_alignment_body boids i s j (c, h)"
  have j: "j < length boids" using Cons.prems(2) by simp
  from h_alignment_body_step [OF Cons.prems(1) assms(1,2) j, of c]
  have ext: "extends_from h0 s (snd st)"
    and val: "(cells (snd st) s, fst st) =
       alignment_body (map (boid_of h0) boids) i j (cells h s, c)"
    by (simp_all add: st_def)
  have rest: "\<forall>j \<in> set xs. j < length boids" using Cons.prems(2) by simp
  from Cons.IH [OF ext rest, of "fst st"]
  show ?case
    by (simp add: st_def [symmetric] val)
qed

lemma h_alignment_result:
  assumes "allocated h boids" "i < length boids"
  shows "extends_from h (fst (h_alignment boids i h)) (snd (h_alignment boids i h)) \<and>
         cells (snd (h_alignment boids i h)) (fst (h_alignment boids i h)) =
           alignment (map (boid_of h) boids) i"
proof -
  define s where "s = lim h"
  define h1 where "h1 = snd (alloc zero3 h)"
  define st where "st = fold (h_alignment_body boids i s) [0..<length boids] (0, h1)"
  have a: "alloc zero3 h = (s, h1)"
    by (simp add: s_def h1_def alloc_def)
  have e1: "extends_from h s h1"
    using extends_from_alloc [of h zero3] by (simp add: s_def h1_def)
  have c1: "cells h1 s = zero3"
    by (simp add: s_def h1_def)
  have "\<forall>j \<in> set [0..<length boids]. j < length boids" by simp
  from h_alignment_fold [OF assms e1 this, of 0]
  have e2: "extends_from h s (snd st)"
    and v2: "(cells (snd st) s, fst st) =
       fold (alignment_body (map (boid_of h) boids) i) [0..<length boids] (zero3, 0)"
    by (simp_all add: st_def c1)
  have v2a: "fst (fold (alignment_body (map (boid_of h) boids) i) [0..<length boids] (zero3, 0))
      = cells (snd st) s"
    and v2b: "snd (fold (alignment_body (map (boid_of h) boids) i) [0..<length boids] (zero3, 0))
      = fst st"
    using v2 [symmetric] by simp_all
  have vel: "velocity_ref (boids ! i) < lim h"
    using allocatedD [OF assms] by simp
  then have ne: "velocity_ref (boids ! i) \<noteq> s"
    by (simp add: s_def)
  have rd: "cells (snd st) (velocity_ref (boids ! i)) = cells h (velocity_ref (boids ! i))"
    using e2 vel by (rule extends_from_read)
  have ge: "lim h \<le> s" by (simp add: s_def)
  show ?thesis
  proof (cases "fst st = 0")
    case True
    have "extends_from h (lim (snd st)) (snd (alloc zero3 (snd st)))"
      using e2 by (simp add: extends_from_def)
    then show ?thesis
      using True
      by (simp add: h_alignment_def a st_def [symmetric] alignment_def Let_def v2b)
  next
    case False
    then show ?thesis
      using e2 ge ne assms(2)
      by (simp add: h_alignment_def a st_def [symmetric] alignment_def Let_def v2a v2b
          extends_from_mutate rd)
  qed
qed

lemma h_cohesion_body_step:
  assumes "extends_from h0 s h" "allocated h0 boids" "i < length boids" "j < length boids"
  shows "extends_from h0 s (snd (h_cohesion_body boids i s j (c, h))) \<and>
         (cells (snd (h_cohesion_body boids i s j (c, h))) s,
          fst (h_cohesion_body boids i s j (c, h))) =
           cohesion_body (map (boid_of h0) boids) i j (cells h s, c)"
proof -
  have pi: "cells h (position_ref (boids ! i)) = cells h0 (position_ref (boids ! i))"
    using assms allocatedD extends_from_read by blast
  have pj: "cells h (position_ref (boids ! j)) = cells h0 (position_ref (boids ! j))"
    using assms allocatedD extends_from_read by blast
  show ?thesis
    using assms(1,3,4)
    by (auto simp: h_cohesion_body_def cohesion_body_def Let_def pi pj extends_from_def)
qed

lemma h_cohesion_fold:
  assumes "allocated h0 boids" "i < length boids"
  shows "extends_from h0 s h \<Longrightarrow> \<forall>j \<in> set xs. j < length boids \<Longrightarrow>
         extends_from h0 s (snd (fold (h_cohesion_body boids i s) xs (c, h))) \<and>
         (cells (snd (fold (h_cohesion_body boids i s) xs (c, h))) s,
          fst (fold (h_cohesion_body boids i s) xs (c, h))) =
           fold (cohesion_body (map (boid_of h0) boids) i) xs (cells h s, c)"
proof (induction xs arbitrary: c h)
  case Nil
  then show ?case by simp
next
  case (Cons j xs)
  define st where "st = h_cohesion_body boids i s j (c, h)"
  have j: "j < length boids" using Cons.prems(2) by simp
  from h_cohesion_body_step [OF Cons.prems(1) assms(1,2) j, of c]
  have ext: "extends_from h0 s (snd st)"
    and val: "(cells (snd st) s, fst st) =
       cohesion_body (map (boid_of h0) boids) i j (cells h s, c)"
    by (simp_all add: st_def)
  have rest: "\<forall>j \<in> set xs. j < length boids" using Cons.prems(2) by simp
  from Cons.IH [OF ext rest, of "fst st"]
  show ?case
    by (simp add: st_def [symmetric] val)
qed

lemma h_cohesion_result:
  assumes "allocated h boids" "i < length boids"
  shows "extends_from h (fst (h_cohesion boids i h)) (snd (h_cohesion boids i h)) \<and>
         cells (snd (h_cohesion boids i h)) (fst (h_cohesion boids i h)) =
           cohesion (map (boid_of h) boids) i"
proof -
  define s where "s = lim h"
  define h1 where "h1 = snd (alloc zero3 h)"
  define st where "st = fold (h_cohesion_body boids i s) [0..<length boids] (0, h1)"
  have a: "alloc zero3 h = (s, h1)"
    by (simp add: s_def h1_def alloc_def)
  have e1: "extends_from h s h1"
    using extends_from_alloc [of h zero3] by (simp add: s_def h1_def)
  have c1: "cells h1 s = zero3"
    by (simp add: s_def h1_def)
  have "\<forall>j \<in> set [0..<length boids]. j < length boids" by simp
  from h_cohesion_fold [OF assms e1 this, of 0]
  have e2: "extends_from h s (snd st)"
    and v2: "(cells (snd st) s, fst st) =
       fold (cohesion_body (map (boid_of h) boids) i) [0..<length boids] (zero3, 0)"
    by (simp_all add: st_def c1)
  have v2a: "fst (fold (cohesion_body (map (boid_of h) boids) i) [0..<length boids] (zero3, 0))
      = cells (snd st) s"
    and v2b: "snd (fold (cohesion_body (map (boid_of h) boids) i) [0..<length boids] (zero3, 0))
      = fst st"
    using v2 [symmetric] by simp_all
  have ge: "lim h \<le> s" by (simp add: s_def)
  show ?thesis
  proof (cases "fst st = 0")
    case True
    have "extends_from h (lim (snd st)) (snd (alloc zero3 (snd st)))"
      using e2 by (simp add: extends_from_def)
    then show ?thesis
      using True
      by (simp add: h_cohesion_def a st_def [symmetric] cohesion_def Let_def v2b)
  next
    case False
    define h3 where "h3 = mutate s (\<lambda>v. divideScalar v (Fin (real (fst st)))) (snd st)"
    have e3: "extends_from h s h3"
      using e2 ge by (simp add: h3_def extends_from_mutate)
    have f3: "frame h h3" using e3 by (rule extends_from_frame)
    have t3: "s < lim h3" using e3 by (simp add: extends_from_def)
    have refs: "position_ref (boids ! i) < lim h" "velocity_ref (boids ! i) < lim h"
      using allocatedD [OF assms] by simp_all
    from h_seek_result [OF f3 refs t3,
        of "cells h (acceleration_ref (boids ! i))" "mesh_position_val (boids ! i)"
           "mesh_quaternion_val (boids ! i)"]
    have r1: "extends_from h3 (fst (h_seek (boids ! i) s h3)) (snd (h_seek (boids ! i) s h3))"
      and r2: "frame h (snd (h_seek (boids ! i) s h3))"
      and r3: "cells (snd (h_seek (boids ! i) s h3)) (fst (h_seek (boids ! i) s h3)) =
          seek (boid_of h (boids ! i)) (cells h3 s)"
      by (simp_all add: boid_of_def)
    have "extends_from h (fst (h_seek (boids ! i) s h3)) (snd (h_seek (boids ! i) s h3))"
      using r1 r2 f3 by (simp add: extends_from_def frame_def)
    moreover have "cells h3 s = divideScalar (cells (snd st) s) (Fin (real (fst st)))"
      by (simp add: h3_def)
    ultimately show ?thesis
      using False assms(2) r3
      by (simp add: h_cohesion_def a st_def [symmetric] cohesion_def Let_def v2a v2b
          h3_def [symmetric])
  qed
qed

lemma frame_boid_of:
  assumes "frame h h'" "allocated h boids" "j < length boids"
  shows "boid_of h' (boids ! j) = boid_of h (boids ! j)"
  using assms(1) allocatedD [OF assms(2,3)]
  by (simp add: boid_of_def frame_def)

lemma frame_map_boid_of:
  assumes "frame h h'" "allocated h boids"
  shows "map (boid_of h') boids = map (boid_of h) boids"
  using assms by (auto simp: boid_of_def frame_def allocated_def)

lemma frame_allocated: "frame h h' \<Longrightarrow> allocated h boids \<Longrightarrow> allocated h' boids"
  by (fastforce simp: frame_def allocated_def)

lemma frame_trans: "frame h h' \<Longrightarrow> frame h' h'' \<Longrightarrow> frame h h''"
  by (simp add: frame_def)

lemma frame_mutate: "frame h h' \<Longrightarrow> lim h \<le> a \<Longrightarrow> frame h (mutate a f h')"
  by (simp add: frame_def)

lemma h_flock_result:
  assumes "allocated h boids" "i < length boids"
  shows "(\<forall>a. a < lim h \<and> a \<noteq> acceleration_ref (boids ! i) \<longrightarrow>
            cells (h_flock boids i h) a = cells h a) \<and>
         cells (h_flock boids i h) (acceleration_ref (boids ! i)) =
           add (add (add (cells h (acceleration_ref (boids ! i)))
                         (multiplyScalar (separation (map (boid_of h) boids) i) (Fin (3 / 2))))
                    (multiplyScalar (alignment (map (boid_of h) boids) i) (Fin 1)))
               (multiplyScalar (cohesion (map (boid_of h) boids) i) (Fin 1))"
proof -
  define sep where "sep = fst (h_separation boids i h)"
  define h1 where "h1 = snd (h_separation boids i h)"
  define h2 where "h2 = mutate sep (\<lambda>v. multiplyScalar v (Fin (3 / 2))) h1"
  define ali where "ali = fst (h_alignment boids i h2)"
  define h3 where "h3 = snd (h_alignment boids i h2)"
  define h4 where "h4 = mutate ali (\<lambda>v. multiplyScalar v (Fin 1)) h3"
  define coh where "coh = fst (h_cohesion boids i h4)"
  define h5 where "h5 = snd (h_cohesion boids i h4)"
  define h6 where "h6 = mutate coh (\<lambda>v. multiplyScalar v (Fin 1)) h5"
  define acc where "acc = acceleration_ref (boids ! i)"
  have acc: "acc < lim h"
    using allocatedD [OF assms] by (simp add: acc_def)
  \<comment> \<open>separation\<close>
  have s1: "extends_from h sep h1"
    and s2: "cells h1 sep = separation (map (boid_of h) boids) i"
    using h_separation_result [OF assms] by (simp_all add: sep_def h1_def)
  have f2: "frame h h2"
    using s1 by (simp add: h2_def extends_from_def frame_def)
  have sep: "lim h \<le> sep" "sep < lim h2"
    using s1 by (simp_all add: extends_from_def h2_def)
  have v2: "cells h2 sep = multiplyScalar (separation (map (boid_of h) boids) i) (Fin (3 / 2))"
    by (simp add: h2_def s2)
  \<comment> \<open>alignment\<close>
  have a2: "allocated h2 boids" using f2 assms(1) by (rule frame_allocated)
  have m2: "map (boid_of h2) boids = map (boid_of h) boids"
    using f2 assms(1) by (rule frame_map_boid_of)
  have t1: "extends_from h2 ali h3"
    and t2: "cells h3 ali = alignment (map (boid_of h) boids) i"
    using h_alignment_result [OF a2 assms(2)] by (simp_all add: ali_def h3_def m2)
  have f4: "frame h2 h4"
    using t1 by (simp add: h4_def extends_from_def frame_def)
  have ali: "lim h2 \<le> ali" "ali < lim h4"
    using t1 by (simp_all add: extends_from_def h4_def)
  have v4: "cells h4 ali = multiplyScalar (alignment (map (boid_of h) boids) i) (Fin 1)"
    by (simp add: h4_def t2)
  have fh4: "frame h h4" using f2 f4 by (rule frame_trans)
  \<comment> \<open>cohesion\<close>
  have a4: "allocated h4 boids" using fh4 assms(1) by (rule frame_allocated)
  have m4: "map (boid_of h4) boids = map (boid_of h) boids"
    using fh4 assms(1) by (rule frame_map_boid_of)
  have u1: "extends_from h4 coh h5"
    and u2: "cells h5 coh = cohesion (map (boid_of h) boids) i"
    using h_cohesion_result [OF a4 assms(2)] by (simp_all add: coh_def h5_def m4)
  have f6: "frame h4 h6"
    using u1 by (simp add: h6_def extends_from_def frame_def)
  have coh: "lim h4 \<le> coh"
    using u1 by (simp add: extends_from_def)
  have v6: "cells h6 coh = multiplyScalar (cohesion (map (boid_of h) boids) i) (Fin 1)"
    by (simp add: h6_def u2)
  have fh6: "frame h h6" using fh4 f6 by (rule frame_trans)
  \<comment> \<open>the values read by the three calls of applyForce\<close>
  have r_sep: "cells h6 sep = multiplyScalar (separation (map (boid_of h) boids) i) (Fin (3 / 2))"
    using f4 f6 sep ali v2 by (simp add: frame_def)
  have r_ali: "cells h6 ali = multiplyScalar (alignment (map (boid_of h) boids) i) (Fin 1)"
    using f6 ali v4 by (simp add: frame_def)
  have ne: "sep \<noteq> acc" "ali \<noteq> acc" "coh \<noteq> acc"
    using acc sep ali coh f2 fh4 by (auto simp: frame_def)
  have r_acc: "cells h6 acc = cells h acc"
    using fh6 acc by (simp add: frame_def)
  have fl: "h_flock boids i h =
      h_applyForce (boids ! i) coh (h_applyForce (boids ! i) ali (h_applyForce (boids ! i) sep h6))"
    by (simp add: h_flock_def case_prod_beta Let_def sep_def h1_def h2_def ali_def h3_def h4_def
        coh_def h5_def h6_def)
  have 1: "\<forall>a. a < lim h \<and> a \<noteq> acc \<longrightarrow> cells (h_flock boids i h) a = cells h a"
    using fh6 by (simp add: fl h_applyForce_def acc_def [symmetric] frame_def)
  have 2: "cells (h_flock boids i h) acc =
      add (add (add (cells h acc) (cells h6 sep)) (cells h6 ali)) (cells h6 coh)"
    using ne by (simp add: fl h_applyForce_def acc_def [symmetric] r_acc)
  show ?thesis
    using 1 2 by (simp add: acc_def r_sep r_ali v6)
qed

lemma h_seek_frame:
  "frame h (snd (h_seek this target h))"
  by (simp add: h_seek_def case_prod_beta Let_def frame_def)

text \<open>On the calling boid, \<^verbatim>\<open>flock\<close> on the store is \<open>flock\<close> on the values.\<close>

lemma h_flock_refines_flock:
  assumes "allocated h boids" "i < length boids" "separate_acceleration boids i"
  shows "boid_of (h_flock boids i h) (boids ! i) = flock (map (boid_of h) boids) i"
proof -
  have refs: "position_ref (boids ! i) < lim h" "velocity_ref (boids ! i) < lim h"
    using allocatedD [OF assms(1,2)] by simp_all
  have ne: "position_ref (boids ! i) \<noteq> acceleration_ref (boids ! i)"
    "velocity_ref (boids ! i) \<noteq> acceleration_ref (boids ! i)"
    using assms(2,3) by (auto simp: separate_acceleration_def)
  show ?thesis
    using h_flock_result [OF assms(1,2)] refs ne assms(2)
    by (simp add: boid_of_def flock_def applyForce_def Let_def)
qed

text \<open>
  Claim C9. On a store where the vectors of the flock exist, \<^verbatim>\<open>separation\<close>,
  \<^verbatim>\<open>alignment\<close>, \<^verbatim>\<open>cohesion\<close> and \<^verbatim>\<open>seek\<close> of the boid at index \<open>i\<close> write only
  vectors they have made themselves: every vector that existed before the call keeps
  its value, and so every boid of the flock, the calling one included, has the
  position, velocity and acceleration it had. \<^verbatim>\<open>flock\<close> leaves every other boid as
  it was, and the calling boid with its position and velocity and with the
  acceleration it had plus 1.5 times the separation, the alignment and the cohesion,
  its acceleration being a vector of its own.
\<close>

theorem queries_frame_and_flock_effect:
  assumes "allocated h boids" and "i < length boids" and "target < lim h"
    and "separate_acceleration boids i"
  shows "frame h (snd (h_separation boids i h)) \<and>
         frame h (snd (h_alignment boids i h)) \<and>
         frame h (snd (h_cohesion boids i h)) \<and>
         frame h (snd (h_seek (boids ! i) target h)) \<and>
         (\<forall>j. j < length boids \<longrightarrow>
            boid_of (snd (h_separation boids i h)) (boids ! j) = boid_of h (boids ! j) \<and>
            boid_of (snd (h_alignment boids i h)) (boids ! j) = boid_of h (boids ! j) \<and>
            boid_of (snd (h_cohesion boids i h)) (boids ! j) = boid_of h (boids ! j) \<and>
            boid_of (snd (h_seek (boids ! i) target h)) (boids ! j) = boid_of h (boids ! j) \<and>
            (j \<noteq> i \<longrightarrow> boid_of (h_flock boids i h) (boids ! j) = boid_of h (boids ! j))) \<and>
         boid_of (h_flock boids i h) (boids ! i) =
           (boid_of h (boids ! i))
             \<lparr>acceleration :=
                add (add (add (acceleration (boid_of h (boids ! i)))
                              (multiplyScalar (separation (map (boid_of h) boids) i) (Fin (3 / 2))))
                         (multiplyScalar (alignment (map (boid_of h) boids) i) (Fin 1)))
                    (multiplyScalar (cohesion (map (boid_of h) boids) i) (Fin 1))\<rparr>"
proof -
  have f1: "frame h (snd (h_separation boids i h))"
    using h_separation_result [OF assms(1,2)] extends_from_frame by blast
  have f2: "frame h (snd (h_alignment boids i h))"
    using h_alignment_result [OF assms(1,2)] extends_from_frame by blast
  have f3: "frame h (snd (h_cohesion boids i h))"
    using h_cohesion_result [OF assms(1,2)] extends_from_frame by blast
  have f4: "frame h (snd (h_seek (boids ! i) target h))"
    by (rule h_seek_frame)
  have others: "boid_of (h_flock boids i h) (boids ! j) = boid_of h (boids ! j)"
    if "j < length boids" "j \<noteq> i" for j
  proof -
    have "position_ref (boids ! j) < lim h" "velocity_ref (boids ! j) < lim h"
      "acceleration_ref (boids ! j) < lim h"
      using allocatedD [OF assms(1) that(1)] by simp_all
    moreover have "position_ref (boids ! j) \<noteq> acceleration_ref (boids ! i)"
      "velocity_ref (boids ! j) \<noteq> acceleration_ref (boids ! i)"
      "acceleration_ref (boids ! j) \<noteq> acceleration_ref (boids ! i)"
      using assms(4) that by (auto simp: separate_acceleration_def)
    ultimately show ?thesis
      using h_flock_result [OF assms(1,2)] by (simp add: boid_of_def)
  qed
  have self: "boid_of (h_flock boids i h) (boids ! i) = flock (map (boid_of h) boids) i"
    using assms(1,2,4) by (rule h_flock_refines_flock)
  have "\<forall>j. j < length boids \<longrightarrow>
            boid_of (snd (h_separation boids i h)) (boids ! j) = boid_of h (boids ! j) \<and>
            boid_of (snd (h_alignment boids i h)) (boids ! j) = boid_of h (boids ! j) \<and>
            boid_of (snd (h_cohesion boids i h)) (boids ! j) = boid_of h (boids ! j) \<and>
            boid_of (snd (h_seek (boids ! i) target h)) (boids ! j) = boid_of h (boids ! j) \<and>
            (j \<noteq> i \<longrightarrow> boid_of (h_flock boids i h) (boids ! j) = boid_of h (boids ! j))"
    using f1 f2 f3 f4 assms(1) others by (simp add: frame_boid_of)
  moreover have "flock (map (boid_of h) boids) i =
           (boid_of h (boids ! i))
             \<lparr>acceleration :=
                add (add (add (acceleration (boid_of h (boids ! i)))
                              (multiplyScalar (separation (map (boid_of h) boids) i) (Fin (3 / 2))))
                         (multiplyScalar (alignment (map (boid_of h) boids) i) (Fin 1)))
                    (multiplyScalar (cohesion (map (boid_of h) boids) i) (Fin 1))\<rparr>"
    using assms(2) by (simp add: flock_def applyForce_def Let_def)
  ultimately show ?thesis
    using f1 f2 f3 f4 self by simp
qed

lemma two_boid_hyps:
  "allocated two_boid_heap two_boid_objs" "0 < length two_boid_objs" "4 < lim two_boid_heap"
  "separate_acceleration two_boid_objs 0"
  by (auto simp: allocated_def two_boid_heap_def two_boid_objs_def separate_acceleration_def
      less_Suc_eq nth_Cons split: nat.splits)

theorem queries_frame_and_flock_effect_witness:
  "allocated two_boid_heap two_boid_objs \<and> 0 < length two_boid_objs \<and>
   4 < lim two_boid_heap \<and> separate_acceleration two_boid_objs 0 \<and>
   frame two_boid_heap (snd (h_separation two_boid_objs 0 two_boid_heap)) \<and>
   frame two_boid_heap (snd (h_seek (two_boid_objs ! 0) 4 two_boid_heap)) \<and>
   boid_of (snd (h_cohesion two_boid_objs 0 two_boid_heap)) (two_boid_objs ! 1) =
     boid_of two_boid_heap (two_boid_objs ! 1) \<and>
   boid_of (h_flock two_boid_objs 0 two_boid_heap) (two_boid_objs ! 1) =
     boid_of two_boid_heap (two_boid_objs ! 1) \<and>
   position (boid_of (h_flock two_boid_objs 0 two_boid_heap) (two_boid_objs ! 0)) =
     position (boid_of two_boid_heap (two_boid_objs ! 0))"
proof -
  note t = queries_frame_and_flock_effect [OF two_boid_hyps]
  have l: "1 < length two_boid_objs" "(1::nat) \<noteq> 0"
    by (simp_all add: two_boid_objs_def)
  from t l have "boid_of (snd (h_cohesion two_boid_objs 0 two_boid_heap)) (two_boid_objs ! 1) =
     boid_of two_boid_heap (two_boid_objs ! 1)"
    "boid_of (h_flock two_boid_objs 0 two_boid_heap) (two_boid_objs ! 1) =
     boid_of two_boid_heap (two_boid_objs ! 1)"
    by blast+
  moreover from t have "position (boid_of (h_flock two_boid_objs 0 two_boid_heap) (two_boid_objs ! 0)) =
     position (boid_of two_boid_heap (two_boid_objs ! 0))"
    by simp
  ultimately show ?thesis
    using two_boid_hyps t by blast
qed

section \<open>Avoiding obstacles\<close>

lemma avoid_body_frame [simp]:
  "position (avoid_body r s c b) = position b" "velocity (avoid_body r s c b) = velocity b"
  by (simp_all add: avoid_body_def applyForce_def)









section \<open>A NaN force\<close>

text \<open>
  NaN is absorbing in the arithmetic and false in every comparison, so a NaN
  acceleration passes the clamp and the tests on the bounds unchanged.
\<close>

lemma jadd_NaN [simp]: "jadd a NaN = NaN" "jadd NaN a = NaN"
  by (cases a; simp)+

lemma jmul_NaN [simp]: "jmul a NaN = NaN" "jmul NaN a = NaN"
  by (cases a; simp)+

lemma jlt_NaN [simp]: "jlt a NaN = False" "jlt NaN a = False"
  by (cases a; simp)+

lemma jle_NaN [simp]: "jle a NaN = False" "jle NaN a = False"
  by (simp_all add: jle_def jeq_def)

lemma nan3_sel [simp]: "vx nan3 = NaN" "vy nan3 = NaN" "vz nan3 = NaN"
  by (simp_all add: nan3_def)

lemma add_nan3 [simp]: "add v nan3 = nan3" "add nan3 v = nan3"
  by (simp_all add: add_def nan3_def)

lemma multiplyScalar_nan3 [simp]: "multiplyScalar nan3 s = nan3"
  by (simp add: multiplyScalar_def nan3_def)

lemma subVectors_nan3 [simp]: "subVectors v nan3 = nan3"
  by (simp add: subVectors_def nan3_def jsub_def)

lemma vlength_nan3 [simp]: "vlength nan3 = NaN"
  by (simp add: vlength_def nan3_def)

lemma clampLength_nan3 [simp]: "clampLength lo hi nan3 = nan3"
  by (simp add: clampLength_def Let_def jor_def divideScalar_def)

lemma within_bounds_nan3 [simp]: "\<not> within_bounds bmin bmax nan3"
  by (simp add: within_bounds_def nan3_def)

lemma bounce_axis_NaN [simp]: "bounce_axis lo hi (NaN, NaN) = (NaN, NaN)"
  by (simp add: bounce_axis_def jgt_def Let_def)

lemma wrap_axis_NaN [simp]: "wrap_axis lo hi NaN = NaN"
  by (simp add: wrap_axis_def jgt_def Let_def)

lemma integrate_nan3:
  assumes "acceleration b = nan3"
  shows "velocity (integrate b) = nan3" "position (integrate b) = nan3"
  using assms by (simp_all add: integrate_def Let_def)

lemma update_nan3:
  assumes "acceleration b = nan3"
  shows "position (update bmin bmax b) = nan3" "velocity (update bmin bmax b) = nan3"
    "position (updateWithWrap bmin bmax b) = nan3" "velocity (updateWithWrap bmin bmax b) = nan3"
  using integrate_nan3 [OF assms]
  by (simp_all add: update_def updateWithWrap_def Let_def nan3_def [symmetric])


text \<open>
  Of two boids at the same position, \<^verbatim>\<open>flock\<close> leaves the first with a NaN
  acceleration: the separation is NaN, and it is added first.
\<close>

lemma flock_coincident:
  "acceleration (flock coincident_flock 0) = nan3"
  by (simp add: flock_def applyForce_def Let_def separation_coincident)

text \<open>The first boid of the array after a frame is the boid after its own round.\<close>

lemma animate_first:
  assumes "0 < length boids"
  shows "animate bmin bmax boids ! 0 = update bmin bmax (flock boids 0)"
proof -
  have "animate bmin bmax boids ! 0 = fold (animate_body bmin bmax) [0..<Suc 0] boids ! 0"
    using prefix_settled [of 0 "Suc 0" "length boids" bmin bmax boids] Suc_leI [OF assms]
    by (simp add: animate_def del: upt_Suc)
  then show ?thesis
    using assms by (simp add: animate_body_self)
qed

lemma animate_coincident:
  "animate default_min default_max coincident_flock ! 0 =
     update default_min default_max (flock coincident_flock 0)"
proof -
  have "0 < length coincident_flock" by (simp add: coincident_flock_def)
  then show ?thesis by (rule animate_first)
qed

text \<open>
  Claim C2 asks that after \<^verbatim>\<open>update()\<close> and after \<^verbatim>\<open>updateWithWrap()\<close> every
  coordinate of the position lie between the bounds, from every starting state with
  well-formed bounds. Two boids at the same position (1, 2, 3), within the default
  bounds, are a state of finite numbers; \<^verbatim>\<open>flock\<close> gives the first a NaN
  acceleration, the velocity and the position are NaN after the integration, both
  tests on each axis are false on NaN, and either method leaves the position NaN,
  which is within no bounds. So it is after one frame of \<^verbatim>\<open>animate\<close>.
\<close>

theorem position_out_of_bounds_after_coincidence:
  "well_formed_bounds default_min default_max \<and>
   within_bounds default_min default_max (position (coincident_flock ! 0)) \<and>
   \<not> within_bounds default_min default_max
        (position (update default_min default_max (flock coincident_flock 0))) \<and>
   \<not> within_bounds default_min default_max
        (position (updateWithWrap default_min default_max (flock coincident_flock 0))) \<and>
   \<not> within_bounds default_min default_max
        (position (animate default_min default_max coincident_flock ! 0))"
proof -
  have "well_formed_bounds default_min default_max"
    by (simp add: well_formed_bounds_def default_min_def default_max_def)
  moreover have "within_bounds default_min default_max (position (coincident_flock ! 0))"
    by (simp add: within_bounds_def default_min_def default_max_def coincident_flock_def)
  ultimately show ?thesis
    by (simp add: animate_coincident update_nan3 [OF flock_coincident])
qed

text \<open>
  Claim C3 asks that after \<^verbatim>\<open>update()\<close> and after \<^verbatim>\<open>updateWithWrap()\<close> the length
  of the velocity be at most \<^verbatim>\<open>MAX_SPEED\<close>, for every accumulated acceleration. On
  the acceleration \<^verbatim>\<open>flock\<close> accumulates for the first of two boids at the same
  position the clamp returns NaN: the length is NaN, \<^verbatim>\<open>length || 1\<close> is 1 and
  the factor \<^verbatim>\<open>Math.max(0, Math.min(MAX_SPEED, length))\<close> is NaN. The velocity after
  either method, and after one frame of \<^verbatim>\<open>animate\<close>, has the length NaN, which is
  not at most \<^verbatim>\<open>MAX_SPEED\<close>.
\<close>

theorem speed_unbounded_after_coincidence:
  "\<not> jle (vlength (velocity (update default_min default_max (flock coincident_flock 0))))
         (Fin MAX_SPEED) \<and>
   \<not> jle (vlength (velocity (updateWithWrap default_min default_max (flock coincident_flock 0))))
         (Fin MAX_SPEED) \<and>
   \<not> jle (vlength (velocity (animate default_min default_max coincident_flock ! 0)))
         (Fin MAX_SPEED)"
  by (simp add: animate_coincident update_nan3 [OF flock_coincident])


section \<open>A boid created at rest\<close>


end
